theory Spec2Isabelle
  imports Main "HOL-Library.Sublist"
begin

section \<open>JavaScript values and strings\<close>

text \<open>
  The backend handles JSON request bodies and JSON replies of two upstream services.
  A field that the code only tests for presence, type or truthiness is a \<open>jsval\<close>;
  a field that the code reads through optional chaining (\<open>a?.b\<close>) is an \<open>option\<close>,
  with \<open>None\<close> for \<open>undefined\<close> and \<open>null\<close>.  A string is a list of characters with
  codes below 256.  White space is JavaScript's, the no-break space (code 160) included.
  The case conversions act on the ASCII letters; the keywords, question words and
  airport codes that the code compares with are ASCII.
\<close>

datatype jsval = JUndefined | JNull | JBool bool | JNum int | JStr string

fun truthy :: "jsval \<Rightarrow> bool" where
  "truthy JUndefined = False"
| "truthy JNull = False"
| "truthy (JBool b) = b"
| "truthy (JNum n) = (n \<noteq> 0)"
| "truthy (JStr s) = (s \<noteq> [])"

text \<open>\<open>x || y\<close> on optional strings: the first operand when it is truthy, else the second.\<close>

definition str_truthy :: "string option \<Rightarrow> bool" where
  "str_truthy v = (case v of None \<Rightarrow> False | Some s \<Rightarrow> s \<noteq> [])"

definition js_or :: "string option \<Rightarrow> string option \<Rightarrow> string option" where
  "js_or a b = (if str_truthy a then a else b)"

definition or_default :: "string option \<Rightarrow> string \<Rightarrow> string" where
  "or_default a d = (case a of None \<Rightarrow> d | Some s \<Rightarrow> if s \<noteq> [] then s else d)"

definition toLowerCase :: "string \<Rightarrow> string" where
  "toLowerCase s =
     map (\<lambda>c. let n = (of_char c :: nat) in if 65 \<le> n \<and> n \<le> 90 then char_of (n + 32) else c) s"

definition toUpperCase :: "string \<Rightarrow> string" where
  "toUpperCase s =
     map (\<lambda>c. let n = (of_char c :: nat) in if 97 \<le> n \<and> n \<le> 122 then char_of (n - 32) else c) s"

text \<open>White space of \<open>String.prototype.trim\<close> and of the regular expression class \<open>\s\<close>:
  tab, line feed, vertical tab, form feed, carriage return, space and no-break space.\<close>

definition is_space :: "char \<Rightarrow> bool" where
  "is_space c = (let n = (of_char c :: nat) in (9 \<le> n \<and> n \<le> 13) \<or> n = 32 \<or> n = 160)"

definition trim :: "string \<Rightarrow> string" where
  "trim s = rev (dropWhile is_space (rev (dropWhile is_space s)))"

fun startsWith :: "string \<Rightarrow> string \<Rightarrow> bool" where
  "startsWith s [] = True"
| "startsWith [] (k # ks) = False"
| "startsWith (c # cs) (k # ks) = (c = k \<and> startsWith cs ks)"

text \<open>\<open>s.includes(k)\<close>: \<open>k\<close> starts at some position of \<open>s\<close>.\<close>

fun str_includes :: "string \<Rightarrow> string \<Rightarrow> bool" where
  "str_includes [] k = (k = [])"
| "str_includes (c # cs) k = (startsWith (c # cs) k \<or> str_includes cs k)"

text \<open>Template literals print a number in decimal.\<close>

fun show_nat :: "nat \<Rightarrow> string" where
  "show_nat n =
     (if n < 10 then [char_of (48 + n)] else show_nat (n div 10) @ [char_of (48 + n mod 10)])"

definition show_int :: "int \<Rightarrow> string" where
  "show_int i = (if i < 0 then CHR ''-'' # show_nat (nat (- i)) else show_nat (nat i))"

section \<open>The LLM service\<close>

subsection \<open>Question validation and sanitising\<close>

definition questionWords :: "string list" where
  "questionWords =
     [''how'', ''what'', ''where'', ''when'', ''why'', ''which'', ''who'', ''many'', ''much'']"

definition isValidQuestion :: "string \<Rightarrow> bool" where
  "isValidQuestion question =
     (if question = [] then False
      else let trimmed = trim question in
        if length trimmed < 5 then False
        else if length trimmed > 500 then False
        else let hasQuestionWord = list_ex (\<lambda>word. str_includes (toLowerCase trimmed) word) questionWords;
                 hasQuestionMark = str_includes trimmed ''?''
             in hasQuestionWord \<or> hasQuestionMark)"

text \<open>\<open>replace(/\s+/g, ' ')\<close>: every maximal run of white space becomes one space.  The flag
  says that the previous character belonged to a run.\<close>

fun collapse_spaces :: "bool \<Rightarrow> string \<Rightarrow> string" where
  "collapse_spaces in_run [] = []"
| "collapse_spaces in_run (c # cs) =
     (if is_space c then (if in_run then collapse_spaces True cs else CHR '' '' # collapse_spaces True cs)
      else c # collapse_spaces False cs)"

text \<open>The characters kept by \<open>replace(/[^\w\s\?\!\.\,\-\(\)]/g, '')\<close>.\<close>

definition is_word_char :: "char \<Rightarrow> bool" where
  "is_word_char c =
     (let n = (of_char c :: nat)
      in (48 \<le> n \<and> n \<le> 57) \<or> (65 \<le> n \<and> n \<le> 90) \<or> (97 \<le> n \<and> n \<le> 122) \<or> n = 95)"

definition is_kept_char :: "char \<Rightarrow> bool" where
  "is_kept_char c = (is_word_char c \<or> is_space c \<or> c \<in> set ''?!.,-()'')"

definition sanitizeQuestion :: "string \<Rightarrow> string" where
  "sanitizeQuestion question =
     (if question = [] then []
      else take 500 (filter is_kept_char (collapse_spaces False (trim question))))"

subsection \<open>Mode analysis\<close>

text \<open>The result object of the classifier; the orchestrator reads these five fields.\<close>

record modeAnalysis =
  relevant :: jsval
  mode :: jsval
  reasoning :: jsval
  confidence :: jsval
  shouldSkipAPI :: jsval

text \<open>
  What the chat-completion call gave: the call rejected, with a message; reading the reply
  raised a TypeError inside the outer \<open>try\<close> (no \<open>choices\<close> array to index, a content
  that is no string); or \<open>response.data.choices[0]?.message?.content?.trim()\<close> evaluated, to
  \<open>undefined\<close> or to a text.
\<close>

datatype llm_reply = CallFailed string | ReplyMalformed | ReplyText "string option"

text \<open>
  \<open>JSON.parse\<close> is the platform's; its outcome on a text is a parameter of the classifier.
  A syntax error raises; \<open>null\<close> parses, and reading \<open>analysis.relevant\<close> of it raises; every
  other value has the five fields, \<open>undefined\<close> where it has none.
\<close>

datatype parsed = SyntaxError | ParsedNull | Parsed modeAnalysis

text \<open>\<open>analysisText.match(/\{[\s\S]*\}/)\<close>: from the first opening brace to the last closing
  brace after it, or no match.\<close>

definition jsonMatch :: "string \<Rightarrow> string option" where
  "jsonMatch s =
     (let from_open = dropWhile (\<lambda>c. c \<noteq> CHR ''{'') s
      in if from_open = [] then None
         else let to_close = rev (dropWhile (\<lambda>c. c \<noteq> CHR ''}'') (rev from_open))
              in if to_close = [] then None else Some to_close)"

definition aviationKeywords :: "string list" where
  "aviationKeywords =
     [''flight'', ''airport'', ''airline'', ''plane'', ''aircraft'', ''departure'', ''arrival'',
      ''terminal'', ''gate'', ''runway'']"

text \<open>The \<open>catch (parseError)\<close> block.\<close>

definition keywordFallback :: "string \<Rightarrow> modeAnalysis" where
  "keywordFallback question =
     (let questionLower = toLowerCase question;
          isAviationRelated = list_ex (\<lambda>keyword. str_includes questionLower keyword) aviationKeywords
      in if \<not> isAviationRelated then
           \<lparr>relevant = JBool False, mode = JStr ''none'',
            reasoning = JStr ''Question does not contain aviation-related keywords'',
            confidence = JStr ''medium'', shouldSkipAPI = JBool True\<rparr>
         else
           let fallbackMode =
                 (if str_includes questionLower ''fly to'' \<or> str_includes questionLower ''go to''
                     \<or> str_includes questionLower ''destination'' \<or> str_includes questionLower ''departing''
                     \<or> str_includes questionLower ''leaving''
                  then ''departures''
                  else if str_includes questionLower ''from'' \<or> str_includes questionLower ''arriving''
                  then ''arrivals''
                  else ''both'')
           in \<lparr>relevant = JBool True, mode = JStr fallbackMode,
               reasoning = JStr (''Keyword-based fallback analysis ('' @ fallbackMode @ '')''),
               confidence = JStr ''medium'', shouldSkipAPI = JUndefined\<rparr>)"

text \<open>The outer \<open>catch (error)\<close> block.  The airport code of
  \<open>analyzeQuestionForMode(question, airport)\<close> enters the prompt only, and the reply to the
  prompt is a parameter here.\<close>

definition errorDefault :: modeAnalysis where
  "errorDefault =
     \<lparr>relevant = JUndefined, mode = JStr ''arrivals'',
      reasoning = JStr ''Default fallback due to analysis error'',
      confidence = JStr ''low'', shouldSkipAPI = JUndefined\<rparr>"

definition analyzeQuestionForMode ::
  "(string \<Rightarrow> parsed) \<Rightarrow> llm_reply \<Rightarrow> string \<Rightarrow> modeAnalysis" where
  "analyzeQuestionForMode json_parse reply question =
     (case reply of
        CallFailed msg \<Rightarrow> errorDefault
      | ReplyMalformed \<Rightarrow> errorDefault
      | ReplyText None \<Rightarrow> keywordFallback question
      | ReplyText (Some analysisText) \<Rightarrow>
          (let jsonText = (case jsonMatch analysisText of Some m \<Rightarrow> m | None \<Rightarrow> analysisText)
           in case json_parse jsonText of
                SyntaxError \<Rightarrow> keywordFallback question
              | ParsedNull \<Rightarrow> keywordFallback question
              | Parsed analysis \<Rightarrow>
                  if relevant analysis = JBool False then
                    \<lparr>relevant = JBool False, mode = JStr ''none'',
                     reasoning = reasoning analysis, confidence = confidence analysis,
                     shouldSkipAPI = JBool True\<rparr>
                  else analysis))"

section \<open>The flight API service\<close>

subsection \<open>Flight records of the upstream schedule\<close>

text \<open>
  One record per object that \<open>processFlightData\<close> reads through; a field that may be
  absent or \<open>null\<close> is an \<open>option\<close>.  Names and codes are strings, times are numbers.
  An item of a flight array is an object, with or without a \<open>flight\<close> object in it.
\<close>

record country_info =
  country_name :: "string option"
  country_code :: "string option"

record position_info =
  country :: "country_info option"

record code_info =
  iata :: "string option"

record airport_info =
  airport_name :: "string option"
  airport_code :: "code_info option"
  position :: "position_info option"

record airport_pair =
  origin :: "airport_info option"
  destination :: "airport_info option"

record airline_info =
  airline_name :: "string option"
  airline_code :: "code_info option"

record number_info =
  number_default :: "string option"

record identification_info =
  number :: "number_info option"
  callsign :: "string option"

record time_pair =
  departure :: "int option"
  arrival :: "int option"

record time_info =
  scheduled :: "time_pair option"
  real_time :: "time_pair option"

record status_info =
  status_text :: "string option"

record model_info =
  model_text :: "string option"

record aircraft_info =
  model :: "model_info option"
  registration :: "string option"

record flight_info =
  airport :: "airport_pair option"
  airline :: "airline_info option"
  identification :: "identification_info option"
  time :: "time_info option"
  status :: "status_info option"
  aircraft :: "aircraft_info option"

record flight_item =
  flight :: "flight_info option"

text \<open>
  The data of one upstream response: the flight arrays under
  \<open>airport.pluginData.schedule.arrivals.data\<close> and \<open>...departures.data\<close>, each \<open>None\<close> when
  the path is absent, and the rest of the payload as text.
\<close>

record payload =
  schedule_arrivals :: "flight_item list option"
  schedule_departures :: "flight_item list option"
  other_data :: string

record raw_result =
  raw_arrivals :: "payload option"
  raw_departures :: "payload option"

record parameters_info =
  param_mode :: jsval
  param_iata :: string
  param_day :: int

record schedule_metadata =
  meta_totalArrivals :: nat
  meta_totalDepartures :: nat
  fetchedAt :: string
  apiEndpoint :: string
  parameters :: parameters_info

record schedule =
  sched_airport :: string
  sched_dayParam :: int
  sched_dayLabel :: string
  sched_arrivals :: "flight_item list"
  sched_departures :: "flight_item list"
  sched_rawResult :: raw_result
  sched_metadata :: schedule_metadata

subsection \<open>Fetching the schedule\<close>

text \<open>A JavaScript \<open>Error\<close> with its message.\<close>

datatype js_error = Error (message: string)

text \<open>What the \<open>catch\<close> blocks of the services read of a caught error:
  \<open>error.response?.status\<close>, \<open>error.code\<close> and \<open>error.message\<close>.\<close>

record caught_error =
  response_status :: "int option"
  error_code :: "string option"
  error_message :: string

text \<open>One upstream request \<open>GET /schedule/{key}?mode=&iata=&day=\<close>.\<close>

record http_get =
  get_mode :: string
  get_iata :: string
  get_day :: int

definition getDayLabel :: "int \<Rightarrow> string" where
  "getDayLabel dayParam =
     (if dayParam = -1 then ''Yesterday''
      else if dayParam = 1 then ''Today''
      else if dayParam = 2 then ''Tomorrow''
      else ''Today'')"

text \<open>The \<open>catch\<close> block of \<open>getAirportSchedule\<close>: the error it throws for a caught one.\<close>

definition scheduleError :: "string \<Rightarrow> caught_error \<Rightarrow> js_error" where
  "scheduleError airportCode error =
     (if response_status error = Some 401 then
        Error ''Invalid FlightAPI key. Please check your API configuration.''
      else if response_status error = Some 429 then
        Error ''FlightAPI rate limit exceeded. Please try again later.''
      else if response_status error = Some 404 then
        Error (''Airport '' @ airportCode @ '' not found or no data available.'')
      else if error_code error = Some ''ECONNABORTED'' then
        Error ''FlightAPI request timeout. Please try again.''
      else Error (''Failed to fetch flight data: '' @ error_message error))"

text \<open>
  \<open>getAirportSchedule(airportCode, dayParam = 1, mode = 'both')\<close>.  The upstream service is the
  function \<open>client_get\<close> from a request to its outcome, \<open>now\<close> is the clock's ISO text.
  The result comes with the list of the requests issued, in order; an argument
  \<open>undefined\<close> takes the parameter's default.
\<close>

definition getAirportSchedule ::
  "(http_get \<Rightarrow> caught_error + payload) \<Rightarrow> string \<Rightarrow> string \<Rightarrow> int option \<Rightarrow> jsval
     \<Rightarrow> http_get list \<times> (js_error + schedule)" where
  "getAirportSchedule client_get now airportCode dayParam_arg mode_arg =
     (let dayParam = (case dayParam_arg of None \<Rightarrow> 1 | Some d \<Rightarrow> d);
          mode = (if mode_arg = JUndefined then JStr ''both'' else mode_arg);
          validDayParam = (if dayParam = 0 then 1 else dayParam);
          arrivalsRequest =
            \<lparr>get_mode = ''arrivals'', get_iata = toUpperCase airportCode, get_day = validDayParam\<rparr>;
          departuresRequest =
            \<lparr>get_mode = ''departures'', get_iata = toUpperCase airportCode, get_day = validDayParam\<rparr>;
          finish = (\<lambda>rawResult.
            let arrivals =
                  (case Option.bind (raw_arrivals rawResult) schedule_arrivals of
                     Some fs \<Rightarrow> fs | None \<Rightarrow> []);
                departures =
                  (case Option.bind (raw_departures rawResult) schedule_departures of
                     Some fs \<Rightarrow> fs | None \<Rightarrow> [])
            in \<lparr>sched_airport = toUpperCase airportCode,
                sched_dayParam = validDayParam,
                sched_dayLabel = getDayLabel validDayParam,
                sched_arrivals = arrivals,
                sched_departures = departures,
                sched_rawResult = rawResult,
                sched_metadata =
                  \<lparr>meta_totalArrivals = length arrivals,
                   meta_totalDepartures = length departures,
                   fetchedAt = now,
                   apiEndpoint = ''FlightAPI.io /schedule'',
                   parameters =
                     \<lparr>param_mode = mode, param_iata = toUpperCase airportCode,
                      param_day = validDayParam\<rparr>\<rparr>\<rparr>);
          departuresStep = (\<lambda>calls rawResult.
            if mode = JStr ''both'' \<or> mode = JStr ''departures'' then
              (case client_get departuresRequest of
                 Inl error \<Rightarrow> (calls @ [departuresRequest], Inl (scheduleError airportCode error))
               | Inr data \<Rightarrow>
                   (calls @ [departuresRequest], Inr (finish (rawResult\<lparr>raw_departures := Some data\<rparr>))))
            else (calls, Inr (finish rawResult)));
          emptyResult = \<lparr>raw_arrivals = None, raw_departures = None\<rparr>
      in if mode = JStr ''both'' \<or> mode = JStr ''arrivals'' then
           (case client_get arrivalsRequest of
              Inl error \<Rightarrow> ([arrivalsRequest], Inl (scheduleError airportCode error))
            | Inr data \<Rightarrow> departuresStep [arrivalsRequest] (emptyResult\<lparr>raw_arrivals := Some data\<rparr>))
         else departuresStep [] emptyResult)"

subsection \<open>Grouping the flights\<close>

text \<open>The detail object pushed to a country group, and the one pushed to a city group.\<close>

record country_detail =
  cd_city :: string
  cd_airline :: string
  cd_flightNumber :: "string option"
  cd_scheduledTime :: "int option"
  cd_actualTime :: "int option"
  cd_status :: "string option"
  cd_aircraft :: "string option"

record city_detail =
  ct_country :: string
  ct_airline :: string
  ct_flightNumber :: "string option"
  ct_scheduledTime :: "int option"
  ct_status :: "string option"

text \<open>
  A JavaScript \<open>Map\<close> with string keys is the list of its entries in insertion order, a
  \<open>Set\<close> the list of its members in insertion order.
\<close>

definition map_has :: "(string \<times> 'v) list \<Rightarrow> string \<Rightarrow> bool" where
  "map_has m k = (k \<in> set (map fst m))"

text \<open>\<open>if (!m.has(k)) m.set(k, [])\<close>\<close>

definition ensure_group :: "string \<Rightarrow> (string \<times> 'v list) list \<Rightarrow> (string \<times> 'v list) list" where
  "ensure_group k m = (if \<not> map_has m k then m @ [(k, [])] else m)"

text \<open>\<open>m.get(k).push(d)\<close>, for a key that the map has.\<close>

definition push_group :: "string \<Rightarrow> 'v \<Rightarrow> (string \<times> 'v list) list \<Rightarrow> (string \<times> 'v list) list" where
  "push_group k d m = map (\<lambda>(k', ds). if k' = k then (k', ds @ [d]) else (k', ds)) m"

definition set_add :: "string \<Rightarrow> string list \<Rightarrow> string list" where
  "set_add x s = (if x \<in> set s then s else s @ [x])"

text \<open>
  \<open>Object.fromEntries\<close> defines one property per entry, a later entry of a key replacing the
  value of an earlier one in place.  The properties of the object are then enumerated with
  the array indices first, in ascending order, and the other keys in creation order.
\<close>

fun define_property :: "string \<Rightarrow> 'v \<Rightarrow> (string \<times> 'v) list \<Rightarrow> (string \<times> 'v) list" where
  "define_property k v [] = [(k, v)]"
| "define_property k v ((k', v') # ps) =
     (if k' = k then (k, v) # ps else (k', v') # define_property k v ps)"

definition digit_value :: "char \<Rightarrow> nat" where
  "digit_value c = of_char c - 48"

definition is_digit :: "char \<Rightarrow> bool" where
  "is_digit c = (let n = (of_char c :: nat) in 48 \<le> n \<and> n \<le> 57)"

definition index_value :: "string \<Rightarrow> int" where
  "index_value k = foldl (\<lambda>n c. 10 * n + int (digit_value c)) 0 k"

text \<open>An array index is the canonical decimal text of a number below \<open>2^32 - 1\<close>.\<close>

definition is_array_index :: "string \<Rightarrow> bool" where
  "is_array_index k =
     (k \<noteq> [] \<and> list_all is_digit k \<and> (k = ''0'' \<or> hd k \<noteq> CHR ''0'')
      \<and> length k \<le> 10 \<and> index_value k < 4294967295)"

definition own_entries :: "(string \<times> 'v) list \<Rightarrow> (string \<times> 'v) list" where
  "own_entries ps =
     sort_key (\<lambda>(k, v). index_value k) (filter (\<lambda>(k, v). is_array_index k) ps)
     @ filter (\<lambda>(k, v). \<not> is_array_index k) ps"

definition fromEntries :: "(string \<times> 'v) list \<Rightarrow> (string \<times> 'v) list" where
  "fromEntries es = own_entries (foldl (\<lambda>obj (k, v). define_property k v obj) [] es)"

text \<open>The accumulators of one direction: the two maps and the set of airlines.\<close>

record groups =
  byCountryMap :: "(string \<times> country_detail list) list"
  byCityMap :: "(string \<times> city_detail list) list"
  airlineSet :: "string list"

definition emptyGroups :: groups where
  "emptyGroups = \<lparr>byCountryMap = [], byCityMap = [], airlineSet = []\<rparr>"

definition countryOf :: "airport_info option \<Rightarrow> string" where
  "countryOf a =
     (let c = Option.bind (Option.bind a position) country
      in or_default (js_or (Option.bind c country_name) (Option.bind c country_code)) ''Unknown Country'')"

definition cityOf :: "airport_info option \<Rightarrow> string" where
  "cityOf a =
     or_default (js_or (Option.bind a airport_name) (Option.bind (Option.bind a airport_code) iata))
       ''Unknown City''"

definition airlineOf :: "flight_info \<Rightarrow> string" where
  "airlineOf f =
     or_default (js_or (Option.bind (airline f) airline_name)
                       (Option.bind (Option.bind (airline f) airline_code) iata))
       ''Unknown Airline''"

definition flightNumberOf :: "flight_info \<Rightarrow> string option" where
  "flightNumberOf f =
     js_or (Option.bind (Option.bind (identification f) number) number_default)
           (Option.bind (identification f) callsign)"

definition aircraftOf :: "flight_info \<Rightarrow> string option" where
  "aircraftOf f =
     js_or (Option.bind (Option.bind (aircraft f) model) model_text)
           (Option.bind (aircraft f) registration)"

text \<open>
  The two \<open>forEach\<close> loops differ in the counterpart airport (origin for arrivals,
  destination for departures) and in the time read (departure for arrivals, arrival for
  departures), which are the parameters \<open>side\<close> and \<open>at\<close>.
\<close>

definition counterpartOf :: "(airport_pair \<Rightarrow> airport_info option) \<Rightarrow> flight_info \<Rightarrow> airport_info option" where
  "counterpartOf side f = Option.bind (airport f) side"

definition countryDetail ::
  "(airport_pair \<Rightarrow> airport_info option) \<Rightarrow> (time_pair \<Rightarrow> int option) \<Rightarrow> flight_info
     \<Rightarrow> country_detail" where
  "countryDetail side at f =
     \<lparr>cd_city = cityOf (counterpartOf side f),
      cd_airline = airlineOf f,
      cd_flightNumber = flightNumberOf f,
      cd_scheduledTime = Option.bind (Option.bind (time f) scheduled) at,
      cd_actualTime = Option.bind (Option.bind (time f) real_time) at,
      cd_status = Option.bind (status f) status_text,
      cd_aircraft = aircraftOf f\<rparr>"

definition cityDetail ::
  "(airport_pair \<Rightarrow> airport_info option) \<Rightarrow> (time_pair \<Rightarrow> int option) \<Rightarrow> flight_info
     \<Rightarrow> city_detail" where
  "cityDetail side at f =
     \<lparr>ct_country = countryOf (counterpartOf side f),
      ct_airline = airlineOf f,
      ct_flightNumber = flightNumberOf f,
      ct_scheduledTime = Option.bind (Option.bind (time f) scheduled) at,
      ct_status = Option.bind (status f) status_text\<rparr>"

text \<open>The body of the loops: an item without \<open>flight\<close> is passed over.\<close>

definition groupFlight ::
  "(airport_pair \<Rightarrow> airport_info option) \<Rightarrow> (time_pair \<Rightarrow> int option) \<Rightarrow> groups \<Rightarrow> flight_item
     \<Rightarrow> groups" where
  "groupFlight side at g item =
     (case flight item of
        None \<Rightarrow> g
      | Some f \<Rightarrow>
          let country = countryOf (counterpartOf side f);
              city = cityOf (counterpartOf side f);
              airline = airlineOf f
          in \<lparr>byCountryMap =
                push_group country (countryDetail side at f) (ensure_group country (byCountryMap g)),
              byCityMap =
                push_group city (cityDetail side at f) (ensure_group city (byCityMap g)),
              airlineSet = set_add airline (airlineSet g)\<rparr>)"

record summary_info =
  totalArrivals :: nat
  totalDepartures :: nat
  arrivalCountries :: nat
  departureCountries :: nat
  arrivalCities :: nat
  departureCities :: nat
  uniqueAirlines :: nat

record direction_info =
  byCountry :: "(string \<times> country_detail list) list"
  byCity :: "(string \<times> city_detail list) list"
  airlines :: "string list"
  total :: nat

record processed =
  proc_airport :: string
  proc_dayParam :: int
  proc_dayLabel :: string
  summary :: summary_info
  arrivals :: direction_info
  departures :: direction_info
  proc_metadata :: schedule_metadata
  proc_rawResult :: raw_result

definition processFlightData :: "schedule \<Rightarrow> processed" where
  "processFlightData flightData =
     (let arr = foldl (groupFlight origin departure) emptyGroups (sched_arrivals flightData);
          dep = foldl (groupFlight destination arrival) emptyGroups (sched_departures flightData)
      in \<lparr>proc_airport = sched_airport flightData,
          proc_dayParam = sched_dayParam flightData,
          proc_dayLabel = sched_dayLabel flightData,
          summary =
            \<lparr>totalArrivals = length (sched_arrivals flightData),
             totalDepartures = length (sched_departures flightData),
             arrivalCountries = length (byCountryMap arr),
             departureCountries = length (byCountryMap dep),
             arrivalCities = length (byCityMap arr),
             departureCities = length (byCityMap dep),
             uniqueAirlines = length (foldl (\<lambda>s x. set_add x s) [] (airlineSet arr @ airlineSet dep))\<rparr>,
          arrivals =
            \<lparr>byCountry = fromEntries (byCountryMap arr), byCity = fromEntries (byCityMap arr),
             airlines = airlineSet arr, total = length (sched_arrivals flightData)\<rparr>,
          departures =
            \<lparr>byCountry = fromEntries (byCountryMap dep), byCity = fromEntries (byCityMap dep),
             airlines = airlineSet dep, total = length (sched_departures flightData)\<rparr>,
          proc_metadata = sched_metadata flightData,
          proc_rawResult = sched_rawResult flightData\<rparr>)"

definition validAirports :: "string list" where
  "validAirports = [''DXB'', ''LHR'', ''CDG'', ''SIN'', ''HKG'', ''AMS'']"

definition isValidAirportCode :: "string \<Rightarrow> bool" where
  "isValidAirportCode airportCode = (toUpperCase airportCode \<in> set validAirports)"

definition airportNames :: "(string \<times> string) list" where
  "airportNames =
     [(''DXB'', ''Dubai International Airport''),
      (''LHR'', ''London Heathrow Airport''),
      (''CDG'', ''Charles de Gaulle Airport (Paris)''),
      (''SIN'', ''Singapore Changi Airport''),
      (''HKG'', ''Hong Kong International Airport''),
      (''AMS'', ''Amsterdam Airport Schiphol'')]"

definition getAirportName :: "string \<Rightarrow> string" where
  "getAirportName airportCode =
     (case map_of airportNames (toUpperCase airportCode) of
        Some n \<Rightarrow> n | None \<Rightarrow> ''Unknown Airport'')"

subsection \<open>The answer generator's errors\<close>

text \<open>
  What the generation call gave: an error caught by the \<open>catch\<close> block of \<open>generateAnswer\<close>
  (the rejected call, or an exception raised while the prompt was built or the reply
  read), or the content of the first choice, \<open>None\<close> when there is none.
\<close>

datatype generation_reply = GenerationFailed caught_error | GenerationText "string option"

definition generationError :: "caught_error \<Rightarrow> js_error" where
  "generationError error =
     (if response_status error = Some 401 then
        Error ''Invalid OpenRouter API key. Please check your configuration.''
      else if response_status error = Some 429 then
        Error ''OpenRouter rate limit exceeded. Please try again later.''
      else if response_status error = Some 402 then
        Error ''OpenRouter account has insufficient credits.''
      else if error_code error = Some ''ECONNABORTED'' then
        Error ''LLM request timeout. Please try again with a simpler question.''
      else Error (''Failed to generate answer: '' @ error_message error))"

text \<open>The error thrown inside the \<open>try\<close> for an empty answer is caught by the same block.\<close>

definition noAnswerError :: caught_error where
  "noAnswerError =
     \<lparr>response_status = None, error_code = None, error_message = ''No answer generated by LLM''\<rparr>"

definition generateAnswer :: "generation_reply \<Rightarrow> js_error + string" where
  "generateAnswer reply =
     (case reply of
        GenerationFailed error \<Rightarrow> Inl (generationError error)
      | GenerationText answer \<Rightarrow>
          if \<not> str_truthy answer then Inl (generationError noAnswerError)
          else (case answer of Some a \<Rightarrow> Inr (trim a) | None \<Rightarrow> Inl (generationError noAnswerError)))"

section \<open>The query route\<close>

subsection \<open>Requests and responses\<close>

text \<open>The request body: \<open>date\<close> is absent or \<open>null\<close> (\<open>None\<close>) or a JSON number, which is
  an integer here (a number with a fraction is no member of \<open>[-1, 1, 2]\<close> either).\<close>

record request_body =
  req_airport :: jsval
  req_question :: jsval
  req_date :: "int option"

text \<open>The body after \<open>validateQueryRequest\<close> passed it on.\<close>

record query_body =
  q_airport :: string
  q_question :: string
  q_date :: "int option"

text \<open>The parts of the response bodies.  Where one body leaves out a field that another
  has (\<open>flightApiMode\<close>, \<open>relevant\<close>), the field is \<open>JUndefined\<close>.\<close>

record error_metadata =
  em_responseTime :: string
  em_timestamp :: string

record response_metadata =
  responseTime :: string
  timestamp :: string
  dataSource :: string
  aiModel :: string
  flightApiMode :: jsval
  flightApiCalled :: bool

record analysis_info =
  an_mode :: jsval
  an_reasoning :: jsval
  an_confidence :: jsval
  an_relevant :: jsval

record country_count =
  cc_country :: string
  cc_count :: nat

record direction_view =
  view_total :: nat
  topCountries :: "country_count list"
  topAirlines :: "string list"

record data_info =
  data_dayParam :: int
  data_dayLabel :: string
  data_summary :: summary_info
  data_arrivals :: direction_view
  data_departures :: direction_view
  data_rawResult :: raw_result

datatype body =
    ValidationBody (res_error: string) (res_code: string) (res_supportedAirports: "string list option")
  | SkipBody (res_success: bool) (res_airport: string) (res_airportName: string)
      (res_question: string) (res_answer: string) (res_analysis: analysis_info)
      (res_metadata: response_metadata)
  | NoDataBody (res_error: string) (res_code: string) (res_airport: string) (res_dayParam: int)
      (res_dayLabel: string)
  | AnswerBody (res_success: bool) (res_airport: string) (res_airportName: string)
      (res_question: string) (res_answer: string) (res_analysis: analysis_info) (res_data: data_info)
      (res_metadata: response_metadata)
  | FailureBody (res_error: string) (res_code: string) (res_airport: string) (res_question: string)
      (res_error_metadata: error_metadata)

record response =
  status_code :: nat
  json :: body

subsection \<open>Validation middleware\<close>

text \<open>\<open>!v || typeof v !== 'string'\<close>\<close>

definition not_a_string :: "jsval \<Rightarrow> bool" where
  "not_a_string v = (\<not> truthy v \<or> (case v of JStr s \<Rightarrow> False | _ \<Rightarrow> True))"

definition string_of :: "jsval \<Rightarrow> string" where
  "string_of v = (case v of JStr s \<Rightarrow> s | _ \<Rightarrow> [])"

text \<open>Either the response sent, or the sanitised body handed to the route (\<open>next()\<close>).\<close>

definition validateQueryRequest :: "request_body \<Rightarrow> response + query_body" where
  "validateQueryRequest b =
     (let airport = req_airport b; question = req_question b; date = req_date b
      in if not_a_string airport then
           Inl \<lparr>status_code = 400,
                json = ValidationBody ''Airport code is required and must be a string''
                         ''INVALID_AIRPORT'' None\<rparr>
         else if \<not> isValidAirportCode (string_of airport) then
           Inl \<lparr>status_code = 400,
                json = ValidationBody
                         ''Invalid airport code. Supported airports: DXB, LHR, CDG, SIN, HKG, AMS''
                         ''UNSUPPORTED_AIRPORT''
                         (Some [''DXB'', ''LHR'', ''CDG'', ''SIN'', ''HKG'', ''AMS''])\<rparr>
         else if not_a_string question then
           Inl \<lparr>status_code = 400,
                json = ValidationBody ''Question is required and must be a string''
                         ''INVALID_QUESTION'' None\<rparr>
         else if \<not> isValidQuestion (string_of question) then
           Inl \<lparr>status_code = 400,
                json = ValidationBody
                         ''Please provide a valid question (minimum 5 characters, should be flight-related)''
                         ''INVALID_QUESTION_FORMAT'' None\<rparr>
         else if (case date of None \<Rightarrow> False | Some d \<Rightarrow> d \<notin> set [-1, 1, 2]) then
           Inl \<lparr>status_code = 400,
                json = ValidationBody
                         ''Date parameter must be -1 (yesterday), 1 (today), or 2 (tomorrow)''
                         ''INVALID_DAY_PARAMETER'' None\<rparr>
         else
           Inr \<lparr>q_airport = trim (toUpperCase (string_of airport)),
                q_question = sanitizeQuestion (string_of question),
                q_date = (case date of None \<Rightarrow> None | Some d \<Rightarrow> if d = 0 then None else Some d)\<rparr>)"

subsection \<open>The route handler\<close>

text \<open>
  The three asynchronous collaborators of the handler, as functions of their arguments:
  each returns its result or the error it throws.  The clock gives the two readings of
  \<open>Date.now()\<close> and the ISO text of \<open>new Date()\<close>.
\<close>

record services =
  classifier :: "string \<Rightarrow> string \<Rightarrow> js_error + modeAnalysis"
  fetcher :: "string \<Rightarrow> int \<Rightarrow> jsval \<Rightarrow> js_error + schedule"
  generator :: "string \<Rightarrow> processed \<Rightarrow> string \<Rightarrow> jsval \<Rightarrow> modeAnalysis \<Rightarrow> js_error + string"

record clock =
  startTime :: int
  endTime :: int
  isoNow :: string

text \<open>The components that a request invoked, in order.\<close>

datatype invocation = Classifier | Fetcher | Aggregator | Generator

definition fallbackAnswer :: string where
  "fallbackAnswer =
     ''Sorry, I can't understand your question. Can you ask again? I'm designed to help with flight schedules, airport information, airlines, and other aviation-related topics.''"

definition millis :: "clock \<Rightarrow> string" where
  "millis clk = show_int (endTime clk - startTime clk) @ ''ms''"

text \<open>The \<open>catch (error)\<close> block of the handler.\<close>

definition errorResponse :: "clock \<Rightarrow> query_body \<Rightarrow> js_error \<Rightarrow> response" where
  "errorResponse clk b err =
     (let (statusCode, errorCode) =
            (if str_includes (message err) ''Invalid FlightAPI key'' then (502, ''FLIGHT_API_ERROR'')
             else if str_includes (message err) ''rate limit'' then (429, ''RATE_LIMIT_EXCEEDED'')
             else if str_includes (message err) ''timeout'' then (504, ''REQUEST_TIMEOUT'')
             else if str_includes (message err) ''Invalid OpenRouter'' then (502, ''LLM_API_ERROR'')
             else (500, ''INTERNAL_ERROR''))
      in \<lparr>status_code = statusCode,
          json = FailureBody (message err) errorCode (q_airport b) (q_question b)
                   \<lparr>em_responseTime = millis clk, em_timestamp = isoNow clk\<rparr>\<rparr>)"

text \<open>\<open>Object.entries(byCountry).sort(([, a], [, b]) => b.length - a.length).slice(0, 10)\<close>,
  each entry mapped to its country and count; the sort is stable.\<close>

definition topCountriesOf :: "(string \<times> country_detail list) list \<Rightarrow> country_count list" where
  "topCountriesOf entries =
     map (\<lambda>(c, flights). \<lparr>cc_country = c, cc_count = length flights\<rparr>)
       (take 10 (sort_key (\<lambda>(c, flights). - int (length flights)) entries))"

definition directionView :: "direction_info \<Rightarrow> direction_view" where
  "directionView d =
     \<lparr>view_total = total d, topCountries = topCountriesOf (byCountry d),
      topAirlines = take 10 (airlines d)\<rparr>"

definition query :: "services \<Rightarrow> clock \<Rightarrow> query_body \<Rightarrow> invocation list \<times> response" where
  "query svc clk b =
     (let airport = q_airport b; question = q_question b; date = q_date b
      in case classifier svc question airport of
           Inl err \<Rightarrow> ([Classifier], errorResponse clk b err)
         | Inr modeAnalysis \<Rightarrow>
             (if truthy (shouldSkipAPI modeAnalysis) \<or> relevant modeAnalysis = JBool False then
                ([Classifier],
                 \<lparr>status_code = 200,
                  json = SkipBody True airport (getAirportName airport) question fallbackAnswer
                    \<lparr>an_mode = mode modeAnalysis, an_reasoning = reasoning modeAnalysis,
                     an_confidence = confidence modeAnalysis, an_relevant = JBool False\<rparr>
                    \<lparr>responseTime = millis clk, timestamp = isoNow clk,
                     dataSource = ''No API call made'', aiModel = ''Gemini Flash 1.5'',
                     flightApiMode = JUndefined, flightApiCalled = False\<rparr>\<rparr>)
              else
                (let dayParam = (case date of None \<Rightarrow> 1 | Some d \<Rightarrow> if d = 0 then 1 else d)
                 in (case fetcher svc airport dayParam (mode modeAnalysis) of
                       Inl err \<Rightarrow> ([Classifier, Fetcher], errorResponse clk b err)
                     | Inr rawFlightData \<Rightarrow>
                         (if length (sched_arrivals rawFlightData) = 0
                             \<and> length (sched_departures rawFlightData) = 0 then
                            ([Classifier, Fetcher],
                             \<lparr>status_code = 404,
                              json = NoDataBody
                                (''No flight data available for '' @ airport @ '' (''
                                   @ sched_dayLabel rawFlightData @ '')'')
                                ''NO_FLIGHT_DATA'' airport (sched_dayParam rawFlightData)
                                (sched_dayLabel rawFlightData)\<rparr>)
                          else
                            (let processedData = processFlightData rawFlightData
                             in (case generator svc question processedData airport
                                        (mode modeAnalysis) modeAnalysis of
                                   Inl err \<Rightarrow>
                                     ([Classifier, Fetcher, Aggregator, Generator],
                                      errorResponse clk b err)
                                 | Inr answer \<Rightarrow>
                                     ([Classifier, Fetcher, Aggregator, Generator],
                                      \<lparr>status_code = 200,
                                       json = AnswerBody True airport (getAirportName airport)
                                         question answer
                                         \<lparr>an_mode = mode modeAnalysis,
                                          an_reasoning = reasoning modeAnalysis,
                                          an_confidence = confidence modeAnalysis,
                                          an_relevant = JUndefined\<rparr>
                                         \<lparr>data_dayParam = proc_dayParam processedData,
                                          data_dayLabel = proc_dayLabel processedData,
                                          data_summary = summary processedData,
                                          data_arrivals = directionView (arrivals processedData),
                                          data_departures = directionView (departures processedData),
                                          data_rawResult = proc_rawResult processedData\<rparr>
                                         \<lparr>responseTime = millis clk, timestamp = isoNow clk,
                                          dataSource = ''FlightAPI.io'',
                                          aiModel = ''Gemini Flash 1.5'',
                                          flightApiMode = mode modeAnalysis,
                                          flightApiCalled = True\<rparr>\<rparr>))))))))"

text \<open>\<open>POST /api/flights/query\<close>: the middleware, then the handler.\<close>

definition postQuery :: "services \<Rightarrow> clock \<Rightarrow> request_body \<Rightarrow> invocation list \<times> response" where
  "postQuery svc clk req =
     (case validateQueryRequest req of
        Inl res \<Rightarrow> ([], res)
      | Inr b \<Rightarrow> query svc clk b)"

subsection \<open>The route with the services of the repository\<close>

text \<open>
  The outside world of one request: the platform's \<open>JSON.parse\<close>, the reply of the
  classification call, the flight API, and the reply of the generation call.
\<close>

record upstream =
  json_parse :: "string \<Rightarrow> parsed"
  classification :: "string \<Rightarrow> string \<Rightarrow> llm_reply"
  client_get :: "http_get \<Rightarrow> caught_error + payload"
  generation :: "string \<Rightarrow> processed \<Rightarrow> string \<Rightarrow> jsval \<Rightarrow> modeAnalysis \<Rightarrow> generation_reply"

definition liveServices :: "upstream \<Rightarrow> string \<Rightarrow> services" where
  "liveServices u now =
     \<lparr>classifier = (\<lambda>question airport.
        Inr (analyzeQuestionForMode (json_parse u) (classification u question airport) question)),
      fetcher = (\<lambda>airport dayParam mode.
        snd (getAirportSchedule (client_get u) now airport (Some dayParam) mode)),
      generator = (\<lambda>question flightData airport mode modeAnalysis.
        generateAnswer (generation u question flightData airport mode modeAnalysis))\<rparr>"

subsection \<open>Sample data\<close>

text \<open>A clock, a request and an upstream world, used where a theorem is instantiated.\<close>

definition sampleClock :: clock where
  "sampleClock = \<lparr>startTime = 100, endTime = 350, isoNow = ''2025-01-01T00:00:00.000Z''\<rparr>"

definition sampleRequest :: request_body where
  "sampleRequest =
     \<lparr>req_airport = JStr ''dxb'', req_question = JStr ''How many flights from Germany?'',
      req_date = None\<rparr>"

definition sampleBody :: query_body where
  "sampleBody =
     \<lparr>q_airport = ''DXB'', q_question = ''How many flights from Germany?'', q_date = None\<rparr>"

definition emptyPayload :: payload where
  "emptyPayload = \<lparr>schedule_arrivals = None, schedule_departures = None, other_data = ''{}''\<rparr>"

text \<open>The classification call fails, the flight API answers without a schedule, the
  generation call answers without a text.\<close>

definition offlineUpstream :: upstream where
  "offlineUpstream =
     \<lparr>json_parse = (\<lambda>text. SyntaxError),
      classification = (\<lambda>question airport. CallFailed ''Network Error''),
      client_get = (\<lambda>request. Inr emptyPayload),
      generation = (\<lambda>question flightData airport mode modeAnalysis. GenerationText None)\<rparr>"

definition weatherRequest :: request_body where
  "weatherRequest =
     \<lparr>req_airport = JStr ''LHR'', req_question = JStr ''What is the weather like?'',
      req_date = Some 2\<rparr>"

definition weatherBody :: query_body where
  "weatherBody =
     \<lparr>q_airport = ''LHR'', q_question = ''What is the weather like?'', q_date = Some 2\<rparr>"

definition weatherAnalysis :: modeAnalysis where
  "weatherAnalysis =
     \<lparr>relevant = JBool False, mode = JStr ''none'',
      reasoning = JStr ''Question does not contain aviation-related keywords'',
      confidence = JStr ''medium'', shouldSkipAPI = JBool True\<rparr>"

text \<open>The classification call answers in prose, which does not parse.\<close>

definition proseUpstream :: upstream where
  "proseUpstream =
     \<lparr>json_parse = (\<lambda>text. SyntaxError),
      classification = (\<lambda>question airport. ReplyText (Some ''I am not sure.'')),
      client_get = (\<lambda>request. Inr emptyPayload),
      generation = (\<lambda>question flightData airport mode modeAnalysis. GenerationText None)\<rparr>"

text \<open>What the fetcher returns for \<open>sampleBody\<close> in the world \<open>offlineUpstream\<close>.\<close>

definition emptySchedule :: schedule where
  "emptySchedule =
     \<lparr>sched_airport = ''DXB'', sched_dayParam = 1, sched_dayLabel = ''Today'',
      sched_arrivals = [], sched_departures = [],
      sched_rawResult = \<lparr>raw_arrivals = Some emptyPayload, raw_departures = None\<rparr>,
      sched_metadata =
        \<lparr>meta_totalArrivals = 0, meta_totalDepartures = 0, fetchedAt = ''now'',
         apiEndpoint = ''FlightAPI.io /schedule'',
         parameters = \<lparr>param_mode = JStr ''arrivals'', param_iata = ''DXB'', param_day = 1\<rparr>\<rparr>\<rparr>"

definition helloRequest :: request_body where
  "helloRequest =
     \<lparr>req_airport = JStr ''dxb'', req_question = JStr ''hello world'', req_date = None\<rparr>"

definition jfkRequest :: request_body where
  "jfkRequest =
     \<lparr>req_airport = JStr ''JFK'', req_question = JStr ''How many flights from Germany?'',
      req_date = None\<rparr>"

definition noAirportRequest :: request_body where
  "noAirportRequest =
     \<lparr>req_airport = JStr '''', req_question = JStr ''How many flights from Germany?'',
      req_date = None\<rparr>"

definition shortRequest :: request_body where
  "shortRequest = \<lparr>req_airport = JStr ''dxb'', req_question = JStr ''Hi?'', req_date = None\<rparr>"

text \<open>
  The response that the \<open>catch\<close> block serialises for an error, given the status and the
  code it chose: \<open>{error, code, airport, question, metadata: {responseTime, timestamp}}\<close>.
\<close>

definition failureResponse :: "clock \<Rightarrow> query_body \<Rightarrow> js_error \<Rightarrow> nat \<Rightarrow> string \<Rightarrow> response" where
  "failureResponse clk b err statusCode errorCode =
     \<lparr>status_code = statusCode,
      json = FailureBody (message err) errorCode (q_airport b) (q_question b)
               \<lparr>em_responseTime = millis clk, em_timestamp = isoNow clk\<rparr>\<rparr>"

text \<open>An upstream reply with an HTTP error status, and a request that timed out.\<close>

definition httpError :: "int \<Rightarrow> caught_error" where
  "httpError n =
     \<lparr>response_status = Some n, error_code = Some ''ERR_BAD_REQUEST'',
      error_message = ''Request failed with status code '' @ show_int n\<rparr>"

definition timeoutError :: caught_error where
  "timeoutError =
     \<lparr>response_status = None, error_code = Some ''ECONNABORTED'',
      error_message = ''timeout of 30000ms exceeded''\<rparr>"

text \<open>The classification call fails and the flight API answers 404.\<close>

definition notFoundUpstream :: upstream where
  "notFoundUpstream =
     \<lparr>json_parse = (\<lambda>text. SyntaxError),
      classification = (\<lambda>question airport. CallFailed ''Network Error''),
      client_get = (\<lambda>request. Inl (httpError 404)),
      generation = (\<lambda>question flightData airport mode modeAnalysis. GenerationText None)\<rparr>"

text \<open>The sum, over all groups of a grouping, of the number of flight details of the group.\<close>

definition groupTotal :: "(string \<times> 'v list) list \<Rightarrow> nat" where
  "groupTotal entries = sum_list (map (\<lambda>(k, ds). length ds) entries)"

text \<open>A schedule of one arrival item that has no \<open>flight\<close> object.\<close>

definition bareSchedule :: schedule where
  "bareSchedule =
     \<lparr>sched_airport = ''DXB'', sched_dayParam = 1, sched_dayLabel = ''Today'',
      sched_arrivals = [\<lparr>flight = None\<rparr>], sched_departures = [],
      sched_rawResult = \<lparr>raw_arrivals = None, raw_departures = None\<rparr>,
      sched_metadata =
        \<lparr>meta_totalArrivals = 1, meta_totalDepartures = 0, fetchedAt = ''now'',
         apiEndpoint = ''FlightAPI.io /schedule'',
         parameters = \<lparr>param_mode = JStr ''arrivals'', param_iata = ''DXB'', param_day = 1\<rparr>\<rparr>\<rparr>"

text \<open>A grouping has an entry for the key whose list of details contains the detail.\<close>

definition filedUnder :: "(string \<times> 'v list) list \<Rightarrow> string \<Rightarrow> 'v \<Rightarrow> bool" where
  "filedUnder entries k x = list_ex (\<lambda>(k', ds). k' = k \<and> x \<in> set ds) entries"

text \<open>An arrival item with the given name, country name and country code of the origin
  airport and the given airline name; every other field is absent.\<close>

definition sampleFlight ::
  "string option \<Rightarrow> string option \<Rightarrow> string option \<Rightarrow> string option \<Rightarrow> flight_item" where
  "sampleFlight originName countryName countryCode airlineName =
     \<lparr>flight = Some
        \<lparr>airport = Some
           \<lparr>origin = Some
              \<lparr>airport_name = originName, airport_code = None,
               position = Some \<lparr>country = Some \<lparr>country_name = countryName,
                                                 country_code = countryCode\<rparr>\<rparr>\<rparr>,
            destination = None\<rparr>,
         airline = (case airlineName of None \<Rightarrow> None
                    | Some n \<Rightarrow> Some \<lparr>airline_name = Some n, airline_code = None\<rparr>),
         identification = None, time = None, status = None, aircraft = None\<rparr>\<rparr>"

text \<open>A flight object with nothing in it, and the item that carries it.\<close>

definition blankFlight :: flight_info where
  "blankFlight =
     \<lparr>airport = None, airline = None, identification = None, time = None, status = None,
      aircraft = None\<rparr>"

definition sampleSchedule :: schedule where
  "sampleSchedule =
     \<lparr>sched_airport = ''DXB'', sched_dayParam = 1, sched_dayLabel = ''Today'',
      sched_arrivals =
        [sampleFlight (Some ''Paris Charles de Gaulle'') (Some ''France'') (Some ''FR'')
           (Some ''Air France''),
         sampleFlight None None (Some ''DE'') None,
         \<lparr>flight = Some blankFlight\<rparr>,
         sampleFlight (Some ''Nice'') (Some ''France'') None (Some ''Air France'')],
      sched_departures = [\<lparr>flight = Some blankFlight\<rparr>],
      sched_rawResult = \<lparr>raw_arrivals = None, raw_departures = None\<rparr>,
      sched_metadata =
        \<lparr>meta_totalArrivals = 4, meta_totalDepartures = 1, fetchedAt = ''now'',
         apiEndpoint = ''FlightAPI.io /schedule'',
         parameters = \<lparr>param_mode = JStr ''both'', param_iata = ''DXB'', param_day = 1\<rparr>\<rparr>\<rparr>"

text \<open>A question of three letters between no-break spaces.\<close>

definition paddedRequest :: request_body where
  "paddedRequest =
     \<lparr>req_airport = JStr ''dxb'',
      req_question = JStr (CHR 0xA0 # CHR 0xA0 # ''how'' @ [CHR 0xA0]),
      req_date = None\<rparr>"

text \<open>An airport with its names, an airport known by its codes only, and two flights
  between them: one of an airline with a name, one of an airline with a code only.\<close>

definition parisAirport :: airport_info where
  "parisAirport =
     \<lparr>airport_name = Some ''Paris Charles de Gaulle'',
      airport_code = Some \<lparr>iata = Some ''CDG''\<rparr>,
      position = Some \<lparr>country = Some \<lparr>country_name = Some ''France'',
                                        country_code = Some ''FR''\<rparr>\<rparr>\<rparr>"

definition codeOnlyAirport :: airport_info where
  "codeOnlyAirport =
     \<lparr>airport_name = None,
      airport_code = Some \<lparr>iata = Some ''FRA''\<rparr>,
      position = Some \<lparr>country = Some \<lparr>country_name = None, country_code = Some ''DE''\<rparr>\<rparr>\<rparr>"

definition namedFlight :: flight_info where
  "namedFlight =
     \<lparr>airport = Some \<lparr>origin = Some parisAirport, destination = Some codeOnlyAirport\<rparr>,
      airline = Some \<lparr>airline_name = Some ''Air France'',
                      airline_code = Some \<lparr>iata = Some ''AF''\<rparr>\<rparr>,
      identification = None, time = None, status = None, aircraft = None\<rparr>"

definition codedFlight :: flight_info where
  "codedFlight =
     \<lparr>airport = Some \<lparr>origin = Some codeOnlyAirport, destination = Some parisAirport\<rparr>,
      airline = Some \<lparr>airline_name = None, airline_code = Some \<lparr>iata = Some ''LH''\<rparr>\<rparr>,
      identification = None, time = None, status = None, aircraft = None\<rparr>"

definition routedSchedule :: schedule where
  "routedSchedule =
     \<lparr>sched_airport = ''DXB'', sched_dayParam = 1, sched_dayLabel = ''Today'',
      sched_arrivals =
        [\<lparr>flight = Some namedFlight\<rparr>, \<lparr>flight = Some codedFlight\<rparr>, \<lparr>flight = Some blankFlight\<rparr>],
      sched_departures = [\<lparr>flight = Some namedFlight\<rparr>],
      sched_rawResult = \<lparr>raw_arrivals = None, raw_departures = None\<rparr>,
      sched_metadata =
        \<lparr>meta_totalArrivals = 3, meta_totalDepartures = 1, fetchedAt = ''now'',
         apiEndpoint = ''FlightAPI.io /schedule'',
         parameters = \<lparr>param_mode = JStr ''both'', param_iata = ''DXB'', param_day = 1\<rparr>\<rparr>\<rparr>"

section \<open>Properties\<close>

subsection \<open>The classifier absorbs a failed call\<close>

text \<open>
  Claim C5.  If the classification call itself fails, the classifier does not pass the
  error on: the service returns a result, and the result is the default with mode
  \<open>arrivals\<close>, confidence \<open>low\<close> and the reasoning text of the error fallback.  The default
  sets neither \<open>relevant\<close> nor \<open>shouldSkipAPI\<close>.
\<close>

theorem classifier_error_default:
  assumes "classification u q a = CallFailed msg"
  shows "classifier (liveServices u now) q a =
           Inr \<lparr>relevant = JUndefined, mode = JStr ''arrivals'',
                reasoning = JStr ''Default fallback due to analysis error'',
                confidence = JStr ''low'', shouldSkipAPI = JUndefined\<rparr>"
  using assms by (simp add: liveServices_def analyzeQuestionForMode_def errorDefault_def)

theorem classifier_error_default_witness:
  "classification offlineUpstream ''How many flights?'' ''DXB'' = CallFailed ''Network Error''
   \<and> classifier (liveServices offlineUpstream ''now'') ''How many flights?'' ''DXB'' =
           Inr \<lparr>relevant = JUndefined, mode = JStr ''arrivals'',
                reasoning = JStr ''Default fallback due to analysis error'',
                confidence = JStr ''low'', shouldSkipAPI = JUndefined\<rparr>"
proof -
  have h: "classification offlineUpstream ''How many flights?'' ''DXB'' = CallFailed ''Network Error''"
    by (simp add: offlineUpstream_def)
  from classifier_error_default [OF h] h show ?thesis by simp
qed

subsection \<open>A mode that names no direction\<close>

text \<open>
  Claim C10.  Called with a mode value other than \<open>arrivals\<close>, \<open>departures\<close> and \<open>both\<close>,
  \<open>getAirportSchedule\<close> issues no upstream request and returns a result, not an error:
  both flight lists empty, an empty raw result, and every other field filled in.  (A mode
  argument \<open>undefined\<close> is no mode value: the parameter then takes its default \<open>both\<close>.)
\<close>

theorem unknown_mode_no_request:
  assumes "mode_arg \<noteq> JUndefined"
    and "mode_arg \<notin> {JStr ''arrivals'', JStr ''departures'', JStr ''both''}"
  shows "let day = (case dayParam_arg of None \<Rightarrow> 1 | Some d \<Rightarrow> if d = 0 then 1 else d)
         in getAirportSchedule get now airportCode dayParam_arg mode_arg =
              ([],
               Inr \<lparr>sched_airport = toUpperCase airportCode,
                    sched_dayParam = day,
                    sched_dayLabel = getDayLabel day,
                    sched_arrivals = [],
                    sched_departures = [],
                    sched_rawResult = \<lparr>raw_arrivals = None, raw_departures = None\<rparr>,
                    sched_metadata =
                      \<lparr>meta_totalArrivals = 0, meta_totalDepartures = 0, fetchedAt = now,
                       apiEndpoint = ''FlightAPI.io /schedule'',
                       parameters =
                         \<lparr>param_mode = mode_arg, param_iata = toUpperCase airportCode,
                          param_day = day\<rparr>\<rparr>\<rparr>)"
  using assms by (simp add: getAirportSchedule_def Let_def split: option.split)

theorem unknown_mode_no_request_witness:
  "JStr ''none'' \<noteq> JUndefined
   \<and> JStr ''none'' \<notin> {JStr ''arrivals'', JStr ''departures'', JStr ''both''}
   \<and> getAirportSchedule (client_get offlineUpstream) ''now'' ''DXB'' (Some 2) (JStr ''none'') =
         ([],
          Inr \<lparr>sched_airport = ''DXB'', sched_dayParam = 2, sched_dayLabel = ''Tomorrow'',
               sched_arrivals = [], sched_departures = [],
               sched_rawResult = \<lparr>raw_arrivals = None, raw_departures = None\<rparr>,
               sched_metadata =
                 \<lparr>meta_totalArrivals = 0, meta_totalDepartures = 0, fetchedAt = ''now'',
                  apiEndpoint = ''FlightAPI.io /schedule'',
                  parameters =
                    \<lparr>param_mode = JStr ''none'', param_iata = ''DXB'', param_day = 2\<rparr>\<rparr>\<rparr>)"
proof -
  have h1: "JStr ''none'' \<noteq> JUndefined" by simp
  have h2: "JStr ''none'' \<notin> {JStr ''arrivals'', JStr ''departures'', JStr ''both''}" by simp
  have up: "toUpperCase ''DXB'' = ''DXB''" by code_simp
  from unknown_mode_no_request [OF h1 h2, of "Some 2" "client_get offlineUpstream" "''now''" "''DXB''"]
  show ?thesis by (simp add: up getDayLabel_def)
qed

subsection \<open>The keyword fallback of the classifier\<close>

lemma startsWith_prefix: "startsWith s k \<longleftrightarrow> prefix k s"
  by (induction s k rule: startsWith.induct) auto

lemma str_includes_sublist: "str_includes s k \<longleftrightarrow> sublist k s"
  by (induction s) (simp_all add: startsWith_prefix sublist_Cons_right)

lemma list_ex_includes: "list_ex (\<lambda>k. str_includes s k) ks \<longleftrightarrow> (\<exists>k\<in>set ks. sublist k s)"
  by (simp add: list_ex_iff str_includes_sublist)

text \<open>
  Claim C6.  When parsing the reply of the classification call fails, the result follows
  from the lower-cased question alone.  If none of the aviation keywords occurs in it, the
  result has \<open>relevant = false\<close>, mode \<open>none\<close> and \<open>shouldSkipAPI = true\<close>.  Otherwise the mode
  is \<open>departures\<close> if one of "fly to", "go to", "destination", "departing", "leaving" occurs;
  else \<open>arrivals\<close> if "from" or "arriving" occurs; else \<open>both\<close>.  The confidence is \<open>medium\<close>
  in every case.  A keyword occurs in a text when it is a contiguous part of it.
\<close>

theorem keyword_fallback:
  assumes "parse (case jsonMatch t of Some m \<Rightarrow> m | None \<Rightarrow> t) = SyntaxError"
  shows "let r = analyzeQuestionForMode parse (ReplyText (Some t)) q;
             ql = toLowerCase q;
             aviation = (\<exists>k \<in> set [''flight'', ''airport'', ''airline'', ''plane'', ''aircraft'',
                           ''departure'', ''arrival'', ''terminal'', ''gate'', ''runway'']. sublist k ql);
             outbound = (\<exists>k \<in> set [''fly to'', ''go to'', ''destination'', ''departing'', ''leaving''].
                           sublist k ql);
             inbound = (\<exists>k \<in> set [''from'', ''arriving'']. sublist k ql)
         in (\<not> aviation \<longrightarrow>
               relevant r = JBool False \<and> mode r = JStr ''none'' \<and> shouldSkipAPI r = JBool True)
          \<and> (aviation \<and> outbound \<longrightarrow> mode r = JStr ''departures'')
          \<and> (aviation \<and> \<not> outbound \<and> inbound \<longrightarrow> mode r = JStr ''arrivals'')
          \<and> (aviation \<and> \<not> outbound \<and> \<not> inbound \<longrightarrow> mode r = JStr ''both'')
          \<and> confidence r = JStr ''medium''"
  using assms
  by (simp add: analyzeQuestionForMode_def keywordFallback_def Let_def aviationKeywords_def
      str_includes_sublist)

theorem keyword_fallback_witness:
  "json_parse proseUpstream
     (case jsonMatch ''I am not sure.'' of Some m \<Rightarrow> m | None \<Rightarrow> ''I am not sure.'') = SyntaxError
   \<and> mode (analyzeQuestionForMode (json_parse proseUpstream) (ReplyText (Some ''I am not sure.''))
              ''How many FLIGHTS arrived FROM Germany?'') = JStr ''arrivals''
   \<and> confidence (analyzeQuestionForMode (json_parse proseUpstream) (ReplyText (Some ''I am not sure.''))
              ''How many FLIGHTS arrived FROM Germany?'') = JStr ''medium''"
proof -
  let ?q = "''How many FLIGHTS arrived FROM Germany?''"
  have h: "json_parse proseUpstream
     (case jsonMatch ''I am not sure.'' of Some m \<Rightarrow> m | None \<Rightarrow> ''I am not sure.'') = SyntaxError"
    by (simp add: proseUpstream_def)
  have a: "\<exists>k \<in> set [''flight'', ''airport'', ''airline'', ''plane'', ''aircraft'',
                ''departure'', ''arrival'', ''terminal'', ''gate'', ''runway'']. sublist k (toLowerCase ?q)"
    unfolding list_ex_includes [symmetric] by code_simp
  have b: "\<not> (\<exists>k \<in> set [''fly to'', ''go to'', ''destination'', ''departing'', ''leaving''].
                sublist k (toLowerCase ?q))"
    unfolding list_ex_includes [symmetric] by code_simp
  have c: "\<exists>k \<in> set [''from'', ''arriving'']. sublist k (toLowerCase ?q)"
    unfolding list_ex_includes [symmetric] by code_simp
  from keyword_fallback [of "json_parse proseUpstream" "''I am not sure.''" ?q, OF h] a b c h
  show ?thesis
    unfolding Let_def by blast
qed

subsection \<open>The route: skipping and missing data\<close>

lemma validate_sample: "validateQueryRequest sampleRequest = Inr sampleBody"
  by code_simp

lemma query_skip:
  assumes "classifier svc (q_question b) (q_airport b) = Inr ma"
    and "truthy (shouldSkipAPI ma) \<or> relevant ma = JBool False"
  shows "query svc clk b =
           ([Classifier],
            \<lparr>status_code = 200,
             json = SkipBody True (q_airport b) (getAirportName (q_airport b)) (q_question b)
                      fallbackAnswer
                      \<lparr>an_mode = mode ma, an_reasoning = reasoning ma,
                       an_confidence = confidence ma, an_relevant = JBool False\<rparr>
                      \<lparr>responseTime = millis clk, timestamp = isoNow clk,
                       dataSource = ''No API call made'', aiModel = ''Gemini Flash 1.5'',
                       flightApiMode = JUndefined, flightApiCalled = False\<rparr>\<rparr>)"
  using assms by (simp add: query_def Let_def)

text \<open>
  Claim C4.  Whenever the result of the classifier has \<open>shouldSkipAPI\<close> set or \<open>relevant\<close>
  equal to \<open>false\<close>, the route answers at once, with status 200, the fixed text
  \<open>fallbackAnswer\<close>, \<open>analysis.relevant = false\<close> and \<open>metadata.flightApiCalled = false\<close>; the
  classifier is the only component invoked, so the schedule fetcher is not.
\<close>

theorem irrelevant_question_skipped:
  assumes "validateQueryRequest req = Inr b"
    and "classifier svc (q_question b) (q_airport b) = Inr ma"
    and "truthy (shouldSkipAPI ma) \<or> relevant ma = JBool False"
  shows "fst (postQuery svc clk req) = [Classifier]
         \<and> Fetcher \<notin> set (fst (postQuery svc clk req))
         \<and> status_code (snd (postQuery svc clk req)) = 200
         \<and> res_answer (json (snd (postQuery svc clk req))) = fallbackAnswer
         \<and> an_relevant (res_analysis (json (snd (postQuery svc clk req)))) = JBool False
         \<and> flightApiCalled (res_metadata (json (snd (postQuery svc clk req)))) = False"
  using assms(1) query_skip [OF assms(2,3), of clk] by (simp add: postQuery_def)

theorem irrelevant_question_skipped_witness:
  "validateQueryRequest weatherRequest = Inr weatherBody
   \<and> classifier (liveServices proseUpstream ''now'') (q_question weatherBody) (q_airport weatherBody)
       = Inr weatherAnalysis
   \<and> (truthy (shouldSkipAPI weatherAnalysis) \<or> relevant weatherAnalysis = JBool False)
   \<and> fst (postQuery (liveServices proseUpstream ''now'') sampleClock weatherRequest) = [Classifier]
   \<and> Fetcher \<notin> set (fst (postQuery (liveServices proseUpstream ''now'') sampleClock weatherRequest))
   \<and> res_answer (json (snd
         (postQuery (liveServices proseUpstream ''now'') sampleClock weatherRequest))) = fallbackAnswer
   \<and> flightApiCalled (res_metadata (json (snd
         (postQuery (liveServices proseUpstream ''now'') sampleClock weatherRequest)))) = False"
proof -
  have h1: "validateQueryRequest weatherRequest = Inr weatherBody"
    by code_simp
  have h2: "classifier (liveServices proseUpstream ''now'') (q_question weatherBody)
              (q_airport weatherBody) = Inr weatherAnalysis"
    by code_simp
  have h3: "truthy (shouldSkipAPI weatherAnalysis) \<or> relevant weatherAnalysis = JBool False"
    by (simp add: weatherAnalysis_def)
  from irrelevant_question_skipped [OF h1 h2 h3, of sampleClock] h1 h2 h3
  show ?thesis by simp
qed

lemma query_no_data:
  assumes "classifier svc (q_question b) (q_airport b) = Inr ma"
    and "\<not> (truthy (shouldSkipAPI ma) \<or> relevant ma = JBool False)"
    and "fetcher svc (q_airport b) (case q_date b of None \<Rightarrow> 1 | Some d \<Rightarrow> if d = 0 then 1 else d)
           (mode ma) = Inr raw"
    and "sched_arrivals raw = []" and "sched_departures raw = []"
  shows "query svc clk b =
           ([Classifier, Fetcher],
            \<lparr>status_code = 404,
             json = NoDataBody
                      (''No flight data available for '' @ q_airport b @ '' ('' @ sched_dayLabel raw @ '')'')
                      ''NO_FLIGHT_DATA'' (q_airport b) (sched_dayParam raw) (sched_dayLabel raw)\<rparr>)"
  using assms by (simp add: query_def Let_def)

text \<open>
  Claim C7.  If the classifier does not ask to skip and the fetcher returns a result with
  an empty arrivals list and an empty departures list, the route responds with status 404
  and code \<open>NO_FLIGHT_DATA\<close>, carrying the airport and the result's \<open>dayParam\<close> and
  \<open>dayLabel\<close>; the classifier and the fetcher are the only components invoked, so neither
  the aggregator nor the answer generator is.
\<close>

theorem empty_schedule_not_found:
  assumes "validateQueryRequest req = Inr b"
    and "classifier svc (q_question b) (q_airport b) = Inr ma"
    and "\<not> (truthy (shouldSkipAPI ma) \<or> relevant ma = JBool False)"
    and "fetcher svc (q_airport b) (case q_date b of None \<Rightarrow> 1 | Some d \<Rightarrow> if d = 0 then 1 else d)
           (mode ma) = Inr raw"
    and "sched_arrivals raw = []" and "sched_departures raw = []"
  shows "status_code (snd (postQuery svc clk req)) = 404
         \<and> res_code (json (snd (postQuery svc clk req))) = ''NO_FLIGHT_DATA''
         \<and> res_airport (json (snd (postQuery svc clk req))) = q_airport b
         \<and> res_dayParam (json (snd (postQuery svc clk req))) = sched_dayParam raw
         \<and> res_dayLabel (json (snd (postQuery svc clk req))) = sched_dayLabel raw
         \<and> fst (postQuery svc clk req) = [Classifier, Fetcher]
         \<and> Aggregator \<notin> set (fst (postQuery svc clk req))
         \<and> Generator \<notin> set (fst (postQuery svc clk req))"
  using assms(1) query_no_data [OF assms(2-6), of clk] by (simp add: postQuery_def)

theorem empty_schedule_not_found_witness:
  "validateQueryRequest sampleRequest = Inr sampleBody
   \<and> classifier (liveServices offlineUpstream ''now'') (q_question sampleBody) (q_airport sampleBody)
       = Inr errorDefault
   \<and> \<not> (truthy (shouldSkipAPI errorDefault) \<or> relevant errorDefault = JBool False)
   \<and> fetcher (liveServices offlineUpstream ''now'') (q_airport sampleBody)
         (case q_date sampleBody of None \<Rightarrow> 1 | Some d \<Rightarrow> if d = 0 then 1 else d)
         (mode errorDefault) = Inr emptySchedule
   \<and> sched_arrivals emptySchedule = [] \<and> sched_departures emptySchedule = []
   \<and> status_code (snd (postQuery (liveServices offlineUpstream ''now'') sampleClock sampleRequest)) = 404
   \<and> res_code (json (snd (postQuery (liveServices offlineUpstream ''now'') sampleClock sampleRequest)))
       = ''NO_FLIGHT_DATA''
   \<and> fst (postQuery (liveServices offlineUpstream ''now'') sampleClock sampleRequest)
       = [Classifier, Fetcher]"
proof -
  have h2: "classifier (liveServices offlineUpstream ''now'') (q_question sampleBody)
              (q_airport sampleBody) = Inr errorDefault"
    by code_simp
  have h3: "\<not> (truthy (shouldSkipAPI errorDefault) \<or> relevant errorDefault = JBool False)"
    by (simp add: errorDefault_def)
  have h4: "fetcher (liveServices offlineUpstream ''now'') (q_airport sampleBody)
         (case q_date sampleBody of None \<Rightarrow> 1 | Some d \<Rightarrow> if d = 0 then 1 else d)
         (mode errorDefault) = Inr emptySchedule"
    by code_simp
  have h5: "sched_arrivals emptySchedule = []" and h6: "sched_departures emptySchedule = []"
    by (simp_all add: emptySchedule_def)
  from empty_schedule_not_found [OF validate_sample h2 h3 h4 h5 h6, of sampleClock]
    validate_sample h2 h3 h4 h5 h6
  show ?thesis by simp
qed

subsection \<open>Validation of the airport and of the question\<close>

lemma toLowerCase_toUpperCase: "toLowerCase (toUpperCase s) = toLowerCase s"
  by (induction s) (auto simp: toLowerCase_def toUpperCase_def Let_def)

lemma toUpperCase_toLowerCase: "toUpperCase (toLowerCase s) = toUpperCase s"
  by (induction s) (auto simp: toLowerCase_def toUpperCase_def Let_def)

lemma valid_upper: "c \<in> set validAirports \<Longrightarrow> toUpperCase (toLowerCase c) = c"
  unfolding validAirports_def by (auto; code_simp)

text \<open>A code is valid when it equals one of the six codes up to the case of its letters.\<close>

lemma isValidAirportCode_iff:
  "isValidAirportCode a \<longleftrightarrow>
     (\<exists>c \<in> set [''DXB'', ''LHR'', ''CDG'', ''SIN'', ''HKG'', ''AMS'']. toLowerCase a = toLowerCase c)"
proof
  assume "isValidAirportCode a"
  then have "toUpperCase a \<in> set validAirports" by (simp add: isValidAirportCode_def)
  moreover have "toLowerCase a = toLowerCase (toUpperCase a)" by (simp add: toLowerCase_toUpperCase)
  ultimately show "\<exists>c \<in> set [''DXB'', ''LHR'', ''CDG'', ''SIN'', ''HKG'', ''AMS'']. toLowerCase a = toLowerCase c"
    unfolding validAirports_def by blast
next
  assume "\<exists>c \<in> set [''DXB'', ''LHR'', ''CDG'', ''SIN'', ''HKG'', ''AMS'']. toLowerCase a = toLowerCase c"
  then obtain c where c: "c \<in> set validAirports" and eq: "toLowerCase a = toLowerCase c"
    unfolding validAirports_def by blast
  have "toUpperCase a = toUpperCase (toLowerCase a)" by (simp add: toUpperCase_toLowerCase)
  also have "\<dots> = c" using eq valid_upper [OF c] by simp
  finally show "isValidAirportCode a" using c by (simp add: isValidAirportCode_def)
qed

lemma sublist_single: "sublist [c] s \<longleftrightarrow> c \<in> set s"
  by (induction s) (auto simp: sublist_Cons_right)

lemma isValidQuestion_iff:
  "isValidQuestion q \<longleftrightarrow>
     5 \<le> length (trim q) \<and> length (trim q) \<le> 500
     \<and> ((\<exists>w \<in> set [''how'', ''what'', ''where'', ''when'', ''why'', ''which'', ''who'', ''many'', ''much''].
            sublist w (toLowerCase (trim q)))
          \<or> CHR ''?'' \<in> set (trim q))"
proof (cases "q = []")
  case True
  then show ?thesis by (simp add: isValidQuestion_def trim_def)
next
  case False
  then show ?thesis
    by (simp add: isValidQuestion_def Let_def questionWords_def str_includes_sublist sublist_single
        not_less not_le)
qed

lemma validate_string_airport:
  assumes "req_airport req = JStr a" and "a \<noteq> []"
  shows "validateQueryRequest req =
           (if \<not> isValidAirportCode a then
              Inl \<lparr>status_code = 400,
                   json = ValidationBody
                            ''Invalid airport code. Supported airports: DXB, LHR, CDG, SIN, HKG, AMS''
                            ''UNSUPPORTED_AIRPORT''
                            (Some [''DXB'', ''LHR'', ''CDG'', ''SIN'', ''HKG'', ''AMS''])\<rparr>
            else if not_a_string (req_question req) then
              Inl \<lparr>status_code = 400,
                   json = ValidationBody ''Question is required and must be a string''
                            ''INVALID_QUESTION'' None\<rparr>
            else if \<not> isValidQuestion (string_of (req_question req)) then
              Inl \<lparr>status_code = 400,
                   json = ValidationBody
                            ''Please provide a valid question (minimum 5 characters, should be flight-related)''
                            ''INVALID_QUESTION_FORMAT'' None\<rparr>
            else if (case req_date req of None \<Rightarrow> False | Some d \<Rightarrow> d \<notin> set [-1, 1, 2]) then
              Inl \<lparr>status_code = 400,
                   json = ValidationBody
                            ''Date parameter must be -1 (yesterday), 1 (today), or 2 (tomorrow)''
                            ''INVALID_DAY_PARAMETER'' None\<rparr>
            else
              Inr \<lparr>q_airport = trim (toUpperCase a),
                   q_question = sanitizeQuestion (string_of (req_question req)),
                   q_date = (case req_date req of None \<Rightarrow> None
                             | Some d \<Rightarrow> if d = 0 then None else Some d)\<rparr>)"
  using assms by (simp add: validateQueryRequest_def Let_def not_a_string_def string_of_def)

text \<open>
  Claim C8, amended.  For every request whose airport is a non-empty string that is not,
  up to the case of its letters, one of DXB, LHR, CDG, SIN, HKG, AMS, validation responds
  with status 400 and code \<open>UNSUPPORTED_AIRPORT\<close>, and no component is invoked: no
  classifier, fetcher or generator call.  A request whose airport is missing, empty or not
  a string is rejected with status 400 and code \<open>INVALID_AIRPORT\<close>, again with no component
  invoked.
\<close>

theorem unsupported_airport_rejected:
  "(req_airport req = JStr a \<and> a \<noteq> []
      \<and> \<not> (\<exists>c \<in> set [''DXB'', ''LHR'', ''CDG'', ''SIN'', ''HKG'', ''AMS'']. toLowerCase a = toLowerCase c)
    \<longrightarrow> postQuery svc clk req =
          ([], \<lparr>status_code = 400,
                json = ValidationBody
                         ''Invalid airport code. Supported airports: DXB, LHR, CDG, SIN, HKG, AMS''
                         ''UNSUPPORTED_AIRPORT''
                         (Some [''DXB'', ''LHR'', ''CDG'', ''SIN'', ''HKG'', ''AMS''])\<rparr>))
   \<and> (not_a_string (req_airport req)
    \<longrightarrow> postQuery svc clk req =
          ([], \<lparr>status_code = 400,
                json = ValidationBody ''Airport code is required and must be a string''
                         ''INVALID_AIRPORT'' None\<rparr>))"
proof (intro conjI impI)
  assume h: "req_airport req = JStr a \<and> a \<noteq> []
      \<and> \<not> (\<exists>c \<in> set [''DXB'', ''LHR'', ''CDG'', ''SIN'', ''HKG'', ''AMS'']. toLowerCase a = toLowerCase c)"
  then have "\<not> isValidAirportCode a" by (simp only: isValidAirportCode_iff not_False_eq_True)
  with h validate_string_airport [of req a]
  show "postQuery svc clk req =
          ([], \<lparr>status_code = 400,
                json = ValidationBody
                         ''Invalid airport code. Supported airports: DXB, LHR, CDG, SIN, HKG, AMS''
                         ''UNSUPPORTED_AIRPORT''
                         (Some [''DXB'', ''LHR'', ''CDG'', ''SIN'', ''HKG'', ''AMS''])\<rparr>)"
    by (simp add: postQuery_def)
next
  assume "not_a_string (req_airport req)"
  then show "postQuery svc clk req =
          ([], \<lparr>status_code = 400,
                json = ValidationBody ''Airport code is required and must be a string''
                         ''INVALID_AIRPORT'' None\<rparr>)"
    by (simp add: postQuery_def validateQueryRequest_def Let_def)
qed

theorem unsupported_airport_rejected_witness:
  "req_airport jfkRequest = JStr ''JFK'' \<and> ''JFK'' \<noteq> []
   \<and> \<not> (\<exists>c \<in> set [''DXB'', ''LHR'', ''CDG'', ''SIN'', ''HKG'', ''AMS''].
            toLowerCase ''JFK'' = toLowerCase c)
   \<and> postQuery (liveServices offlineUpstream ''now'') sampleClock jfkRequest =
          ([], \<lparr>status_code = 400,
                json = ValidationBody
                         ''Invalid airport code. Supported airports: DXB, LHR, CDG, SIN, HKG, AMS''
                         ''UNSUPPORTED_AIRPORT''
                         (Some [''DXB'', ''LHR'', ''CDG'', ''SIN'', ''HKG'', ''AMS''])\<rparr>)"
proof -
  have h1: "req_airport jfkRequest = JStr ''JFK''" by (simp add: jfkRequest_def)
  have "\<not> isValidAirportCode ''JFK''" by code_simp
  then have h3: "\<not> (\<exists>c \<in> set [''DXB'', ''LHR'', ''CDG'', ''SIN'', ''HKG'', ''AMS''].
            toLowerCase ''JFK'' = toLowerCase c)"
    by (simp only: isValidAirportCode_iff not_False_eq_True)
  from unsupported_airport_rejected
         [of jfkRequest "''JFK''" "liveServices offlineUpstream ''now''" sampleClock] h1 h3
  show ?thesis by blast
qed

text \<open>
  The claim as stated fails for the empty airport code: it is none of the six codes, and
  the response carries the code \<open>INVALID_AIRPORT\<close>.
\<close>

theorem unsupported_airport_counterexample:
  "req_airport noAirportRequest = JStr ''''
   \<and> \<not> isValidAirportCode ''''
   \<and> status_code (snd (postQuery (liveServices offlineUpstream ''now'') sampleClock noAirportRequest))
       = 400
   \<and> res_code (json (snd (postQuery (liveServices offlineUpstream ''now'') sampleClock noAirportRequest)))
       = ''INVALID_AIRPORT''
   \<and> res_code (json (snd (postQuery (liveServices offlineUpstream ''now'') sampleClock noAirportRequest)))
       \<noteq> ''UNSUPPORTED_AIRPORT''"
proof -
  have "\<not> isValidAirportCode ''''" by code_simp
  moreover have "postQuery (liveServices offlineUpstream ''now'') sampleClock noAirportRequest =
          ([], \<lparr>status_code = 400,
                json = ValidationBody ''Airport code is required and must be a string''
                         ''INVALID_AIRPORT'' None\<rparr>)"
    by (simp add: postQuery_def validateQueryRequest_def Let_def noAirportRequest_def not_a_string_def)
  ultimately show ?thesis by (simp add: noAirportRequest_def)
qed

text \<open>
  Claim C9, amended.  Let the airport of a request be a supported code, its question a
  string, and call the question well-formed when its trimmed length is at least 5 and at
  most 500 and, in addition, it contains a question mark or, in lower case, one of the
  words how, what, where, when, why, which, who, many, much.  When the day selector is
  absent or one of -1, 1, 2, the request passes validation exactly when the question is
  well-formed.  A non-empty question that is not well-formed is rejected with status 400
  and code \<open>INVALID_QUESTION_FORMAT\<close>, and the empty question with status 400 and code
  \<open>INVALID_QUESTION\<close>; in both cases no component is invoked.
\<close>

theorem question_validation:
  assumes "req_airport req = JStr a" and "isValidAirportCode a"
    and "req_question req = JStr q"
  shows "let wellFormed =
               (5 \<le> length (trim q) \<and> length (trim q) \<le> 500
                \<and> ((\<exists>w \<in> set [''how'', ''what'', ''where'', ''when'', ''why'', ''which'', ''who'',
                                ''many'', ''much'']. sublist w (toLowerCase (trim q)))
                    \<or> CHR ''?'' \<in> set (trim q)))
         in (isValidQuestion q \<longleftrightarrow> wellFormed)
          \<and> (req_date req \<in> {None, Some (-1), Some 1, Some 2} \<longrightarrow>
               ((\<exists>b. validateQueryRequest req = Inr b) \<longleftrightarrow> wellFormed))
          \<and> (q \<noteq> [] \<and> \<not> wellFormed \<longrightarrow>
               postQuery svc clk req =
                 ([], \<lparr>status_code = 400,
                       json = ValidationBody
                                ''Please provide a valid question (minimum 5 characters, should be flight-related)''
                                ''INVALID_QUESTION_FORMAT'' None\<rparr>))
          \<and> (q = [] \<longrightarrow>
               postQuery svc clk req =
                 ([], \<lparr>status_code = 400,
                       json = ValidationBody ''Question is required and must be a string''
                                ''INVALID_QUESTION'' None\<rparr>))"
proof -
  have a: "a \<noteq> []"
    using assms(2) by (auto simp: isValidAirportCode_def validAirports_def toUpperCase_def)
  note v = validate_string_airport [OF assms(1) a]
  have q: "string_of (req_question req) = q" "not_a_string (req_question req) \<longleftrightarrow> q = []"
    using assms(3) by (simp_all add: not_a_string_def string_of_def)
  have empty: "\<not> isValidQuestion []" by (simp add: isValidQuestion_def)
  have r1: "q \<noteq> [] \<and> \<not> isValidQuestion q \<Longrightarrow> postQuery svc clk req =
                ([], \<lparr>status_code = 400,
                      json = ValidationBody
                               ''Please provide a valid question (minimum 5 characters, should be flight-related)''
                               ''INVALID_QUESTION_FORMAT'' None\<rparr>)"
    using v q assms(2) by (simp add: postQuery_def)
  have r2: "q = [] \<Longrightarrow> postQuery svc clk req =
                 ([], \<lparr>status_code = 400,
                       json = ValidationBody ''Question is required and must be a string''
                                ''INVALID_QUESTION'' None\<rparr>)"
    using v q assms(2) by (simp add: postQuery_def)
  have r3: "req_date req \<in> {None, Some (-1), Some 1, Some 2} \<Longrightarrow>
              (\<exists>b. validateQueryRequest req = Inr b) \<longleftrightarrow> isValidQuestion q"
    using v q assms(2) empty by auto
  from r1 r2 r3 isValidQuestion_iff [of q] show ?thesis
    unfolding Let_def by blast
qed

theorem question_validation_witness:
  "req_airport shortRequest = JStr ''dxb'' \<and> isValidAirportCode ''dxb''
   \<and> req_question shortRequest = JStr ''Hi?'' \<and> ''Hi?'' \<noteq> []
   \<and> \<not> isValidQuestion ''Hi?''
   \<and> postQuery (liveServices offlineUpstream ''now'') sampleClock shortRequest =
        ([], \<lparr>status_code = 400,
              json = ValidationBody
                       ''Please provide a valid question (minimum 5 characters, should be flight-related)''
                       ''INVALID_QUESTION_FORMAT'' None\<rparr>)
   \<and> req_question paddedRequest = JStr (CHR 0xA0 # CHR 0xA0 # ''how'' @ [CHR 0xA0])
   \<and> trim (CHR 0xA0 # CHR 0xA0 # ''how'' @ [CHR 0xA0]) = ''how''
   \<and> \<not> isValidQuestion (CHR 0xA0 # CHR 0xA0 # ''how'' @ [CHR 0xA0])
   \<and> postQuery (liveServices offlineUpstream ''now'') sampleClock paddedRequest =
        ([], \<lparr>status_code = 400,
              json = ValidationBody
                       ''Please provide a valid question (minimum 5 characters, should be flight-related)''
                       ''INVALID_QUESTION_FORMAT'' None\<rparr>)
   \<and> req_question sampleRequest = JStr ''How many flights from Germany?''
   \<and> req_date sampleRequest \<in> {None, Some (-1), Some 1, Some 2}
   \<and> isValidQuestion ''How many flights from Germany?''
   \<and> validateQueryRequest sampleRequest = Inr sampleBody"
proof -
  have h2: "isValidAirportCode ''dxb''" by code_simp
  have s1: "req_airport shortRequest = JStr ''dxb''"
    and s3: "req_question shortRequest = JStr ''Hi?''"
    by (simp_all add: shortRequest_def)
  have s5: "\<not> isValidQuestion ''Hi?''" by code_simp
  have p1: "req_airport paddedRequest = JStr ''dxb''"
    and p3: "req_question paddedRequest = JStr (CHR 0xA0 # CHR 0xA0 # ''how'' @ [CHR 0xA0])"
    by (simp_all add: paddedRequest_def)
  have p4: "trim (CHR 0xA0 # CHR 0xA0 # ''how'' @ [CHR 0xA0]) = ''how''" by code_simp
  have p5: "\<not> isValidQuestion (CHR 0xA0 # CHR 0xA0 # ''how'' @ [CHR 0xA0])" by code_simp
  have g1: "req_airport sampleRequest = JStr ''dxb''"
    and g3: "req_question sampleRequest = JStr ''How many flights from Germany?''"
    and g4: "req_date sampleRequest \<in> {None, Some (-1), Some 1, Some 2}"
    by (simp_all add: sampleRequest_def)
  have g5: "isValidQuestion ''How many flights from Germany?''" by code_simp
  note t = question_validation [where svc = "liveServices offlineUpstream ''now''" and clk = sampleClock]
  from t [OF s1 h2 s3] s5
  have short: "postQuery (liveServices offlineUpstream ''now'') sampleClock shortRequest =
        ([], \<lparr>status_code = 400,
              json = ValidationBody
                       ''Please provide a valid question (minimum 5 characters, should be flight-related)''
                       ''INVALID_QUESTION_FORMAT'' None\<rparr>)"
    unfolding Let_def by blast
  from t [OF p1 h2 p3] p5
  have padded: "postQuery (liveServices offlineUpstream ''now'') sampleClock paddedRequest =
        ([], \<lparr>status_code = 400,
              json = ValidationBody
                       ''Please provide a valid question (minimum 5 characters, should be flight-related)''
                       ''INVALID_QUESTION_FORMAT'' None\<rparr>)"
    unfolding Let_def by blast
  from t [OF g1 h2 g3] g4 g5 have "\<exists>b. validateQueryRequest sampleRequest = Inr b"
    unfolding Let_def by blast
  then have good: "validateQueryRequest sampleRequest = Inr sampleBody"
    by (simp add: validate_sample)
  from s1 h2 s3 s5 short p3 p4 p5 padded g3 g4 g5 good show ?thesis by simp
qed

text \<open>
  The claim as stated fails for the question "hello world": its trimmed length is 11, and
  it is rejected, as it has neither a question word nor a question mark.
\<close>

theorem question_validation_counterexample:
  "req_airport helloRequest = JStr ''dxb'' \<and> isValidAirportCode ''dxb''
   \<and> req_question helloRequest = JStr ''hello world''
   \<and> 5 \<le> length (trim ''hello world'') \<and> length (trim ''hello world'') \<le> 500
   \<and> \<not> isValidQuestion ''hello world''
   \<and> postQuery (liveServices offlineUpstream ''now'') sampleClock helloRequest =
        ([], \<lparr>status_code = 400,
              json = ValidationBody
                       ''Please provide a valid question (minimum 5 characters, should be flight-related)''
                       ''INVALID_QUESTION_FORMAT'' None\<rparr>)"
proof -
  have h1: "req_airport helloRequest = JStr ''dxb''" by (simp add: helloRequest_def)
  have h2: "isValidAirportCode ''dxb''" by code_simp
  have h3: "req_question helloRequest = JStr ''hello world''" by (simp add: helloRequest_def)
  have h4: "5 \<le> length (trim ''hello world'')" by code_simp
  have h5: "length (trim ''hello world'') \<le> 500" by code_simp
  have h6: "\<not> isValidQuestion ''hello world''" by code_simp
  have "validateQueryRequest helloRequest =
          Inl \<lparr>status_code = 400,
               json = ValidationBody
                        ''Please provide a valid question (minimum 5 characters, should be flight-related)''
                        ''INVALID_QUESTION_FORMAT'' None\<rparr>"
    using validate_string_airport [OF h1] h2 h3 h6
    by (simp add: not_a_string_def string_of_def)
  then have h7: "postQuery (liveServices offlineUpstream ''now'') sampleClock helloRequest =
        ([], \<lparr>status_code = 400,
              json = ValidationBody
                       ''Please provide a valid question (minimum 5 characters, should be flight-related)''
                       ''INVALID_QUESTION_FORMAT'' None\<rparr>)"
    by (simp add: postQuery_def)
  from h1 h2 h3 h4 h5 h6 h7 show ?thesis by blast
qed

subsection \<open>Errors of the fetcher and of the generator\<close>

lemma query_fetch_error:
  assumes "classifier svc (q_question b) (q_airport b) = Inr ma"
    and "\<not> (truthy (shouldSkipAPI ma) \<or> relevant ma = JBool False)"
    and "fetcher svc (q_airport b) (case q_date b of None \<Rightarrow> 1 | Some d \<Rightarrow> if d = 0 then 1 else d)
           (mode ma) = Inl err"
  shows "query svc clk b = ([Classifier, Fetcher], errorResponse clk b err)"
  using assms by (simp add: query_def Let_def)

lemma query_generate_error:
  assumes "classifier svc (q_question b) (q_airport b) = Inr ma"
    and "\<not> (truthy (shouldSkipAPI ma) \<or> relevant ma = JBool False)"
    and "fetcher svc (q_airport b) (case q_date b of None \<Rightarrow> 1 | Some d \<Rightarrow> if d = 0 then 1 else d)
           (mode ma) = Inr raw"
    and "sched_arrivals raw \<noteq> [] \<or> sched_departures raw \<noteq> []"
    and "generator svc (q_question b) (processFlightData raw) (q_airport b) (mode ma) ma = Inl err"
  shows "query svc clk b = ([Classifier, Fetcher, Aggregator, Generator], errorResponse clk b err)"
  using assms by (auto simp: query_def Let_def)

lemma errorResponse_flight_key:
  "sublist ''Invalid FlightAPI key'' (message err)
   \<Longrightarrow> errorResponse clk b err = failureResponse clk b err 502 ''FLIGHT_API_ERROR''"
  by (simp add: errorResponse_def failureResponse_def str_includes_sublist)

lemma errorResponse_rate_limit:
  "\<not> sublist ''Invalid FlightAPI key'' (message err) \<Longrightarrow> sublist ''rate limit'' (message err)
   \<Longrightarrow> errorResponse clk b err = failureResponse clk b err 429 ''RATE_LIMIT_EXCEEDED''"
  by (simp add: errorResponse_def failureResponse_def str_includes_sublist)

lemma errorResponse_timeout:
  "\<not> sublist ''Invalid FlightAPI key'' (message err) \<Longrightarrow> \<not> sublist ''rate limit'' (message err)
   \<Longrightarrow> sublist ''timeout'' (message err)
   \<Longrightarrow> errorResponse clk b err = failureResponse clk b err 504 ''REQUEST_TIMEOUT''"
  by (simp add: errorResponse_def failureResponse_def str_includes_sublist)

lemma errorResponse_openrouter:
  "\<not> sublist ''Invalid FlightAPI key'' (message err) \<Longrightarrow> \<not> sublist ''rate limit'' (message err)
   \<Longrightarrow> \<not> sublist ''timeout'' (message err) \<Longrightarrow> sublist ''Invalid OpenRouter'' (message err)
   \<Longrightarrow> errorResponse clk b err = failureResponse clk b err 502 ''LLM_API_ERROR''"
  by (simp add: errorResponse_def failureResponse_def str_includes_sublist)

lemma errorResponse_internal:
  "\<not> sublist ''Invalid FlightAPI key'' (message err) \<Longrightarrow> \<not> sublist ''rate limit'' (message err)
   \<Longrightarrow> \<not> sublist ''timeout'' (message err) \<Longrightarrow> \<not> sublist ''Invalid OpenRouter'' (message err)
   \<Longrightarrow> errorResponse clk b err = failureResponse clk b err 500 ''INTERNAL_ERROR''"
  by (simp add: errorResponse_def failureResponse_def str_includes_sublist)

text \<open>The fixed messages of the two \<open>catch\<close> blocks, and the marker texts they contain.\<close>

lemma fixed_message_markers:
  "sublist ''Invalid FlightAPI key'' ''Invalid FlightAPI key. Please check your API configuration.''"
  "\<not> sublist ''Invalid FlightAPI key'' ''FlightAPI rate limit exceeded. Please try again later.''"
  "sublist ''rate limit'' ''FlightAPI rate limit exceeded. Please try again later.''"
  "\<not> sublist ''Invalid FlightAPI key'' ''FlightAPI request timeout. Please try again.''"
  "\<not> sublist ''rate limit'' ''FlightAPI request timeout. Please try again.''"
  "sublist ''timeout'' ''FlightAPI request timeout. Please try again.''"
  "\<not> sublist ''Invalid FlightAPI key'' ''Invalid OpenRouter API key. Please check your configuration.''"
  "\<not> sublist ''rate limit'' ''Invalid OpenRouter API key. Please check your configuration.''"
  "\<not> sublist ''timeout'' ''Invalid OpenRouter API key. Please check your configuration.''"
  "sublist ''Invalid OpenRouter'' ''Invalid OpenRouter API key. Please check your configuration.''"
  "\<not> sublist ''Invalid FlightAPI key'' ''OpenRouter rate limit exceeded. Please try again later.''"
  "sublist ''rate limit'' ''OpenRouter rate limit exceeded. Please try again later.''"
  "\<not> sublist ''Invalid FlightAPI key'' ''OpenRouter account has insufficient credits.''"
  "\<not> sublist ''rate limit'' ''OpenRouter account has insufficient credits.''"
  "\<not> sublist ''timeout'' ''OpenRouter account has insufficient credits.''"
  "\<not> sublist ''Invalid OpenRouter'' ''OpenRouter account has insufficient credits.''"
  "\<not> sublist ''Invalid FlightAPI key'' ''LLM request timeout. Please try again with a simpler question.''"
  "\<not> sublist ''rate limit'' ''LLM request timeout. Please try again with a simpler question.''"
  "sublist ''timeout'' ''LLM request timeout. Please try again with a simpler question.''"
  "\<not> sublist ''Invalid FlightAPI key'' ''Failed to generate answer: No answer generated by LLM''"
  "\<not> sublist ''rate limit'' ''Failed to generate answer: No answer generated by LLM''"
  "\<not> sublist ''timeout'' ''Failed to generate answer: No answer generated by LLM''"
  "\<not> sublist ''Invalid OpenRouter'' ''Failed to generate answer: No answer generated by LLM''"
  unfolding str_includes_sublist [symmetric] by code_simp+

lemma not_found_message_markers:
  assumes "a \<in> set validAirports"
  shows "\<not> sublist ''Invalid FlightAPI key'' (''Airport '' @ a @ '' not found or no data available.'')"
    and "\<not> sublist ''rate limit'' (''Airport '' @ a @ '' not found or no data available.'')"
    and "\<not> sublist ''timeout'' (''Airport '' @ a @ '' not found or no data available.'')"
    and "\<not> sublist ''Invalid OpenRouter'' (''Airport '' @ a @ '' not found or no data available.'')"
  using assms unfolding str_includes_sublist [symmetric] validAirports_def
  by (auto; code_simp)+

text \<open>
  Claim C3, amended.  For an error raised by the schedule fetcher or by the answer
  generator, the \<open>catch\<close> block of the route chooses status and code from the message and
  serialises \<open>error\<close>, \<open>code\<close>, \<open>airport\<close>, \<open>question\<close> and \<open>metadata\<close> with \<open>responseTime\<close> and
  \<open>timestamp\<close>.  An upstream authentication failure (status 401) gives 502, with code
  \<open>FLIGHT_API_ERROR\<close> for the fetcher and \<open>LLM_API_ERROR\<close> for the generator; rate limiting
  (status 429) gives 429 \<open>RATE_LIMIT_EXCEEDED\<close>; a timeout (code \<open>ECONNABORTED\<close>) gives 504
  \<open>REQUEST_TIMEOUT\<close>.  The fetcher's error for an upstream 404 (airport not found, for a
  supported airport code) gives 500 \<open>INTERNAL_ERROR\<close>, and so do quota exhaustion (status
  402), an empty generation, and every error whose message contains none of the four
  marker texts of the block.
\<close>

theorem error_taxonomy:
  "(response_status e = Some 401 \<longrightarrow>
      errorResponse clk b (scheduleError a e)
        = failureResponse clk b (scheduleError a e) 502 ''FLIGHT_API_ERROR'')
   \<and> (response_status e = Some 429 \<longrightarrow>
      errorResponse clk b (scheduleError a e)
        = failureResponse clk b (scheduleError a e) 429 ''RATE_LIMIT_EXCEEDED'')
   \<and> (response_status e = Some 404 \<and> a \<in> set validAirports \<longrightarrow>
      errorResponse clk b (scheduleError a e)
        = failureResponse clk b (scheduleError a e) 500 ''INTERNAL_ERROR'')
   \<and> (response_status e \<notin> {Some 401, Some 429, Some 404} \<and> error_code e = Some ''ECONNABORTED'' \<longrightarrow>
      errorResponse clk b (scheduleError a e)
        = failureResponse clk b (scheduleError a e) 504 ''REQUEST_TIMEOUT'')
   \<and> (response_status e = Some 401 \<longrightarrow>
      errorResponse clk b (generationError e)
        = failureResponse clk b (generationError e) 502 ''LLM_API_ERROR'')
   \<and> (response_status e = Some 429 \<longrightarrow>
      errorResponse clk b (generationError e)
        = failureResponse clk b (generationError e) 429 ''RATE_LIMIT_EXCEEDED'')
   \<and> (response_status e = Some 402 \<longrightarrow>
      errorResponse clk b (generationError e)
        = failureResponse clk b (generationError e) 500 ''INTERNAL_ERROR'')
   \<and> (response_status e \<notin> {Some 401, Some 429, Some 402} \<and> error_code e = Some ''ECONNABORTED'' \<longrightarrow>
      errorResponse clk b (generationError e)
        = failureResponse clk b (generationError e) 504 ''REQUEST_TIMEOUT'')
   \<and> generateAnswer (GenerationText None) = Inl (generationError noAnswerError)
   \<and> errorResponse clk b (generationError noAnswerError)
        = failureResponse clk b (generationError noAnswerError) 500 ''INTERNAL_ERROR''
   \<and> (\<not> sublist ''Invalid FlightAPI key'' (message err) \<and> \<not> sublist ''rate limit'' (message err)
       \<and> \<not> sublist ''timeout'' (message err) \<and> \<not> sublist ''Invalid OpenRouter'' (message err) \<longrightarrow>
      errorResponse clk b err = failureResponse clk b err 500 ''INTERNAL_ERROR'')"
proof (intro conjI impI)
  assume "response_status e = Some 401"
  then show "errorResponse clk b (scheduleError a e)
        = failureResponse clk b (scheduleError a e) 502 ''FLIGHT_API_ERROR''"
    by (simp add: scheduleError_def errorResponse_flight_key fixed_message_markers)
next
  assume "response_status e = Some 429"
  then show "errorResponse clk b (scheduleError a e)
        = failureResponse clk b (scheduleError a e) 429 ''RATE_LIMIT_EXCEEDED''"
    by (simp add: scheduleError_def errorResponse_rate_limit fixed_message_markers)
next
  assume h: "response_status e = Some 404 \<and> a \<in> set validAirports"
  then have v: "a \<in> set validAirports" by simp
  from h have m: "message (scheduleError a e) = ''Airport '' @ a @ '' not found or no data available.''"
    by (simp add: scheduleError_def)
  show "errorResponse clk b (scheduleError a e)
        = failureResponse clk b (scheduleError a e) 500 ''INTERNAL_ERROR''"
    by (rule errorResponse_internal; unfold m; rule not_found_message_markers [OF v])
next
  assume "response_status e \<notin> {Some 401, Some 429, Some 404} \<and> error_code e = Some ''ECONNABORTED''"
  then show "errorResponse clk b (scheduleError a e)
        = failureResponse clk b (scheduleError a e) 504 ''REQUEST_TIMEOUT''"
    by (simp add: scheduleError_def errorResponse_timeout fixed_message_markers)
next
  assume "response_status e = Some 401"
  then show "errorResponse clk b (generationError e)
        = failureResponse clk b (generationError e) 502 ''LLM_API_ERROR''"
    by (simp add: generationError_def errorResponse_openrouter fixed_message_markers)
next
  assume "response_status e = Some 429"
  then show "errorResponse clk b (generationError e)
        = failureResponse clk b (generationError e) 429 ''RATE_LIMIT_EXCEEDED''"
    by (simp add: generationError_def errorResponse_rate_limit fixed_message_markers)
next
  assume "response_status e = Some 402"
  then show "errorResponse clk b (generationError e)
        = failureResponse clk b (generationError e) 500 ''INTERNAL_ERROR''"
    by (simp add: generationError_def errorResponse_internal fixed_message_markers)
next
  assume "response_status e \<notin> {Some 401, Some 429, Some 402} \<and> error_code e = Some ''ECONNABORTED''"
  then show "errorResponse clk b (generationError e)
        = failureResponse clk b (generationError e) 504 ''REQUEST_TIMEOUT''"
    by (simp add: generationError_def errorResponse_timeout fixed_message_markers)
next
  show "generateAnswer (GenerationText None) = Inl (generationError noAnswerError)"
    by (simp add: generateAnswer_def str_truthy_def)
next
  show "errorResponse clk b (generationError noAnswerError)
        = failureResponse clk b (generationError noAnswerError) 500 ''INTERNAL_ERROR''"
    by (simp add: generationError_def noAnswerError_def errorResponse_internal fixed_message_markers)
next
  assume "\<not> sublist ''Invalid FlightAPI key'' (message err) \<and> \<not> sublist ''rate limit'' (message err)
       \<and> \<not> sublist ''timeout'' (message err) \<and> \<not> sublist ''Invalid OpenRouter'' (message err)"
  then show "errorResponse clk b err = failureResponse clk b err 500 ''INTERNAL_ERROR''"
    by (simp add: errorResponse_internal)
qed

theorem error_taxonomy_witness:
  "response_status (httpError 401) = Some 401
   \<and> status_code (errorResponse sampleClock sampleBody (scheduleError ''DXB'' (httpError 401))) = 502
   \<and> status_code (errorResponse sampleClock sampleBody (generationError (httpError 401))) = 502
   \<and> response_status (httpError 429) = Some 429
   \<and> status_code (errorResponse sampleClock sampleBody (scheduleError ''DXB'' (httpError 429))) = 429
   \<and> status_code (errorResponse sampleClock sampleBody (generationError (httpError 429))) = 429
   \<and> response_status (httpError 404) = Some 404 \<and> ''DXB'' \<in> set validAirports
   \<and> status_code (errorResponse sampleClock sampleBody (scheduleError ''DXB'' (httpError 404))) = 500
   \<and> response_status (httpError 402) = Some 402
   \<and> status_code (errorResponse sampleClock sampleBody (generationError (httpError 402))) = 500
   \<and> response_status timeoutError \<notin> {Some 401, Some 429, Some 404}
   \<and> response_status timeoutError \<notin> {Some 401, Some 429, Some 402}
   \<and> error_code timeoutError = Some ''ECONNABORTED''
   \<and> status_code (errorResponse sampleClock sampleBody (scheduleError ''DXB'' timeoutError)) = 504
   \<and> status_code (errorResponse sampleClock sampleBody (generationError timeoutError)) = 504"
proof -
  have v: "''DXB'' \<in> set validAirports" by (simp add: validAirports_def)
  note t = error_taxonomy [where clk = sampleClock and b = sampleBody and a = "''DXB''"]
  from t [where e = "httpError 401"] t [where e = "httpError 429"] t [where e = "httpError 404"]
    t [where e = "httpError 402"] t [where e = timeoutError] v
  show ?thesis by (simp add: failureResponse_def httpError_def timeoutError_def)
qed

text \<open>
  The claim as stated fails for the not-found error: when the flight API answers 404 for
  DXB, the route responds with status 500 and code \<open>INTERNAL_ERROR\<close>, not with 404.
\<close>

theorem error_taxonomy_counterexample:
  "client_get notFoundUpstream \<lparr>get_mode = ''arrivals'', get_iata = ''DXB'', get_day = 1\<rparr>
     = Inl (httpError 404)
   \<and> response_status (httpError 404) = Some 404
   \<and> postQuery (liveServices notFoundUpstream ''now'') sampleClock sampleRequest =
       ([Classifier, Fetcher],
        \<lparr>status_code = 500,
         json = FailureBody ''Airport DXB not found or no data available.'' ''INTERNAL_ERROR''
                  ''DXB'' ''How many flights from Germany?''
                  \<lparr>em_responseTime = ''250ms'', em_timestamp = ''2025-01-01T00:00:00.000Z''\<rparr>\<rparr>)
   \<and> status_code (snd (postQuery (liveServices notFoundUpstream ''now'') sampleClock sampleRequest))
       \<noteq> 404"
proof -
  have r: "postQuery (liveServices notFoundUpstream ''now'') sampleClock sampleRequest =
       ([Classifier, Fetcher],
        \<lparr>status_code = 500,
         json = FailureBody ''Airport DXB not found or no data available.'' ''INTERNAL_ERROR''
                  ''DXB'' ''How many flights from Germany?''
                  \<lparr>em_responseTime = ''250ms'', em_timestamp = ''2025-01-01T00:00:00.000Z''\<rparr>\<rparr>)"
    by code_simp
  show ?thesis unfolding r by (simp add: notFoundUpstream_def httpError_def)
qed

subsection \<open>Grouping keeps every flight once\<close>

lemma map_fst_push_group: "map fst (push_group k d m) = map fst m"
  by (induction m) (auto simp: push_group_def)

lemma map_fst_ensure_group:
  "map fst (ensure_group k m) = (if k \<in> set (map fst m) then map fst m else map fst m @ [k])"
  by (simp add: ensure_group_def map_has_def)

lemma distinct_push_ensure:
  "distinct (map fst m) \<Longrightarrow> distinct (map fst (push_group k d (ensure_group k m)))"
  by (simp add: map_fst_push_group map_fst_ensure_group)

lemma groupTotal_push_group:
  "k \<in> set (map fst m) \<Longrightarrow> distinct (map fst m)
   \<Longrightarrow> groupTotal (push_group k d m) = Suc (groupTotal m)"
proof (induction m)
  case Nil
  then show ?case by simp
next
  case (Cons p m)
  obtain k' ds where p: "p = (k', ds)" by (cases p)
  show ?case
  proof (cases "k' = k")
    case True
    with Cons.prems p have "k \<notin> set (map fst m)" by simp
    then have "push_group k d m = m"
      by (induction m) (auto simp: push_group_def)
    with True p show ?thesis by (simp add: groupTotal_def push_group_def)
  next
    case False
    with Cons p show ?thesis by (simp add: groupTotal_def push_group_def)
  qed
qed

lemma groupTotal_push_ensure:
  assumes "distinct (map fst m)"
  shows "groupTotal (push_group k d (ensure_group k m)) = Suc (groupTotal m)"
proof -
  have "k \<in> set (map fst (ensure_group k m))" by (simp add: map_fst_ensure_group)
  moreover have "distinct (map fst (ensure_group k m))"
    using assms by (simp add: map_fst_ensure_group)
  ultimately have "groupTotal (push_group k d (ensure_group k m)) = Suc (groupTotal (ensure_group k m))"
    by (rule groupTotal_push_group)
  then show ?thesis by (simp add: ensure_group_def groupTotal_def)
qed

text \<open>The invariant of the loop: keys are unique, and the groups hold one detail per item
  with a \<open>flight\<close> object seen so far.\<close>

lemma groupFlight_invariant:
  assumes "distinct (map fst (byCountryMap g))" and "distinct (map fst (byCityMap g))"
  shows "distinct (map fst (byCountryMap (groupFlight side at g item)))
       \<and> distinct (map fst (byCityMap (groupFlight side at g item)))
       \<and> groupTotal (byCountryMap (groupFlight side at g item))
           = groupTotal (byCountryMap g) + (if flight item = None then 0 else 1)
       \<and> groupTotal (byCityMap (groupFlight side at g item))
           = groupTotal (byCityMap g) + (if flight item = None then 0 else 1)"
  using assms
  by (cases "flight item")
     (simp_all add: groupFlight_def Let_def distinct_push_ensure groupTotal_push_ensure)

lemma foldl_groupFlight_invariant:
  assumes "distinct (map fst (byCountryMap g))" and "distinct (map fst (byCityMap g))"
  shows "distinct (map fst (byCountryMap (foldl (groupFlight side at) g items)))
       \<and> distinct (map fst (byCityMap (foldl (groupFlight side at) g items)))
       \<and> groupTotal (byCountryMap (foldl (groupFlight side at) g items))
           = groupTotal (byCountryMap g) + length (filter (\<lambda>i. flight i \<noteq> None) items)
       \<and> groupTotal (byCityMap (foldl (groupFlight side at) g items))
           = groupTotal (byCityMap g) + length (filter (\<lambda>i. flight i \<noteq> None) items)"
  using assms
proof (induction items arbitrary: g)
  case Nil
  then show ?case by simp
next
  case (Cons item items)
  note inv = groupFlight_invariant [OF Cons.prems, of side at item]
  from inv have d1: "distinct (map fst (byCountryMap (groupFlight side at g item)))"
    and d2: "distinct (map fst (byCityMap (groupFlight side at g item)))" by simp_all
  from Cons.IH [OF d1 d2] inv show ?case by auto
qed

lemma define_property_new: "k \<notin> set (map fst obj) \<Longrightarrow> define_property k v obj = obj @ [(k, v)]"
  by (induction obj) auto

lemma foldl_define_property_distinct:
  "distinct (map fst (obj @ es))
   \<Longrightarrow> foldl (\<lambda>obj (k, v). define_property k v obj) obj es = obj @ es"
proof (induction es arbitrary: obj)
  case Nil
  then show ?case by simp
next
  case (Cons e es)
  obtain k v where e: "e = (k, v)" by (cases e)
  from Cons.prems e have "k \<notin> set (map fst obj)" by auto
  then have step: "define_property k v obj = obj @ [(k, v)]" by (rule define_property_new)
  from Cons.prems e have "distinct (map fst ((obj @ [(k, v)]) @ es))" by simp
  from Cons.IH [OF this] step e show ?case by simp
qed

lemma sum_list_insort_key:
  "sum_list (map f (insort_key g x xs)) = f x + sum_list (map (f :: 'a \<Rightarrow> nat) xs)"
  by (induction xs) auto

lemma sum_list_sort_key: "sum_list (map f (sort_key g xs)) = sum_list (map (f :: 'a \<Rightarrow> nat) xs)"
  by (induction xs) (simp_all add: sum_list_insort_key)

lemma groupTotal_partition:
  "groupTotal (filter (\<lambda>(k, v). P k) ps) + groupTotal (filter (\<lambda>(k, v). \<not> P k) ps) = groupTotal ps"
  by (induction ps) (auto simp: groupTotal_def)

lemma groupTotal_sort_key: "groupTotal (sort_key g ps) = groupTotal ps"
  by (simp add: groupTotal_def sum_list_sort_key)

lemma groupTotal_append: "groupTotal (ps @ qs) = groupTotal ps + groupTotal qs"
  by (simp add: groupTotal_def)

lemma groupTotal_own_entries: "groupTotal (own_entries ps) = groupTotal ps"
  unfolding own_entries_def groupTotal_append groupTotal_sort_key
  by (rule groupTotal_partition)

lemma groupTotal_fromEntries:
  "distinct (map fst es) \<Longrightarrow> groupTotal (fromEntries es) = groupTotal es"
  using foldl_define_property_distinct [of "[]" es]
  by (simp add: fromEntries_def groupTotal_own_entries)

lemma distinct_emptyGroups:
  "distinct (map fst (byCountryMap emptyGroups))" "distinct (map fst (byCityMap emptyGroups))"
  "groupTotal (byCountryMap emptyGroups) = 0" "groupTotal (byCityMap emptyGroups) = 0"
  by (simp_all add: emptyGroups_def groupTotal_def)

text \<open>
  Claim C1, amended.  For every input and each direction, the sum over all country groups
  of the group's flight-detail count, and the sum over all city groups, each equal the
  number of items of that direction's input list that have a \<open>flight\<close> object: none of
  those is dropped or duplicated.  An item without a \<open>flight\<close> object is passed over, so
  the sums equal the length of the input list when every item has one.
\<close>

theorem groups_count_flights:
  "groupTotal (byCountry (arrivals (processFlightData d)))
     = length (filter (\<lambda>i. flight i \<noteq> None) (sched_arrivals d))
   \<and> groupTotal (byCity (arrivals (processFlightData d)))
     = length (filter (\<lambda>i. flight i \<noteq> None) (sched_arrivals d))
   \<and> groupTotal (byCountry (departures (processFlightData d)))
     = length (filter (\<lambda>i. flight i \<noteq> None) (sched_departures d))
   \<and> groupTotal (byCity (departures (processFlightData d)))
     = length (filter (\<lambda>i. flight i \<noteq> None) (sched_departures d))
   \<and> ((\<forall>i \<in> set (sched_arrivals d). flight i \<noteq> None) \<longrightarrow>
        groupTotal (byCountry (arrivals (processFlightData d))) = length (sched_arrivals d)
        \<and> groupTotal (byCity (arrivals (processFlightData d))) = length (sched_arrivals d))
   \<and> ((\<forall>i \<in> set (sched_departures d). flight i \<noteq> None) \<longrightarrow>
        groupTotal (byCountry (departures (processFlightData d))) = length (sched_departures d)
        \<and> groupTotal (byCity (departures (processFlightData d))) = length (sched_departures d))"
proof -
  note arr = foldl_groupFlight_invariant
    [OF distinct_emptyGroups(1,2), of origin departure "sched_arrivals d"]
  note dep = foldl_groupFlight_invariant
    [OF distinct_emptyGroups(1,2), of destination arrival "sched_departures d"]
  have a1: "groupTotal (byCountry (arrivals (processFlightData d)))
     = length (filter (\<lambda>i. flight i \<noteq> None) (sched_arrivals d))"
    using arr by (simp add: processFlightData_def Let_def groupTotal_fromEntries distinct_emptyGroups)
  have a2: "groupTotal (byCity (arrivals (processFlightData d)))
     = length (filter (\<lambda>i. flight i \<noteq> None) (sched_arrivals d))"
    using arr by (simp add: processFlightData_def Let_def groupTotal_fromEntries distinct_emptyGroups)
  have d1: "groupTotal (byCountry (departures (processFlightData d)))
     = length (filter (\<lambda>i. flight i \<noteq> None) (sched_departures d))"
    using dep by (simp add: processFlightData_def Let_def groupTotal_fromEntries distinct_emptyGroups)
  have d2: "groupTotal (byCity (departures (processFlightData d)))
     = length (filter (\<lambda>i. flight i \<noteq> None) (sched_departures d))"
    using dep by (simp add: processFlightData_def Let_def groupTotal_fromEntries distinct_emptyGroups)
  have full: "\<And>xs. (\<forall>i \<in> set xs. flight i \<noteq> None) \<Longrightarrow> filter (\<lambda>i. flight i \<noteq> None) xs = xs"
    by (simp add: filter_id_conv)
  show ?thesis using a1 a2 d1 d2 full by simp
qed


theorem groups_count_flights_witness:
  "list_all (\<lambda>i. flight i \<noteq> None) (sched_arrivals sampleSchedule)
   \<and> list_all (\<lambda>i. flight i \<noteq> None) (sched_departures sampleSchedule)
   \<and> length (sched_arrivals sampleSchedule) = 4
   \<and> length (sched_departures sampleSchedule) = 1
   \<and> groupTotal (byCountry (arrivals (processFlightData sampleSchedule))) = 4
   \<and> groupTotal (byCity (arrivals (processFlightData sampleSchedule))) = 4
   \<and> groupTotal (byCountry (departures (processFlightData sampleSchedule))) = 1
   \<and> groupTotal (byCity (departures (processFlightData sampleSchedule))) = 1"
proof -
  have h1: "\<forall>i \<in> set (sched_arrivals sampleSchedule). flight i \<noteq> None"
    by (simp add: sampleSchedule_def sampleFlight_def)
  have h2: "\<forall>i \<in> set (sched_departures sampleSchedule). flight i \<noteq> None"
    by (simp add: sampleSchedule_def)
  have l1: "length (sched_arrivals sampleSchedule) = 4"
    and l2: "length (sched_departures sampleSchedule) = 1"
    by (simp_all add: sampleSchedule_def)
  from groups_count_flights [of sampleSchedule] h1 h2 l1 l2
  show ?thesis by (simp add: list_all_iff)
qed

text \<open>
  The claim as stated fails for an item without a \<open>flight\<close> object: the input list has
  length 1 (and \<open>total\<close> is 1), and no group holds a detail.
\<close>

theorem groups_count_flights_counterexample:
  "length (sched_arrivals bareSchedule) = 1
   \<and> total (arrivals (processFlightData bareSchedule)) = 1
   \<and> groupTotal (byCountry (arrivals (processFlightData bareSchedule))) = 0
   \<and> groupTotal (byCity (arrivals (processFlightData bareSchedule))) = 0"
  by (simp add: bareSchedule_def processFlightData_def Let_def groupFlight_def emptyGroups_def
      fromEntries_def own_entries_def groupTotal_def)

subsection \<open>Missing data falls back to codes and sentinels\<close>

lemma filedUnder_iff: "filedUnder m k x \<longleftrightarrow> (\<exists>ds. (k, ds) \<in> set m \<and> x \<in> set ds)"
  by (auto simp: filedUnder_def list_ex_iff)

lemma push_group_entry:
  assumes "(k, ds) \<in> set m"
  shows "(k, if k = k' then ds @ [d] else ds) \<in> set (push_group k' d m)"
proof -
  define h where "h = (\<lambda>(a, e). if a = k' then (a, e @ [d]) else (a, e))"
  have pg: "push_group k' d m = map h m" by (simp add: push_group_def h_def)
  from assms have "h (k, ds) \<in> set (map h m)" by simp
  moreover have "h (k, ds) = (k, if k = k' then ds @ [d] else ds)" by (simp add: h_def)
  ultimately show ?thesis by (simp add: pg)
qed

lemma filedUnder_push_group:
  assumes "filedUnder m k x"
  shows "filedUnder (push_group k' d m) k x"
proof -
  from assms obtain ds where e: "(k, ds) \<in> set m" and x: "x \<in> set ds"
    unfolding filedUnder_iff by blast
  from x have "x \<in> set (if k = k' then ds @ [d] else ds)" by simp
  with push_group_entry [OF e, of k' d] show ?thesis
    unfolding filedUnder_iff by blast
qed

lemma filedUnder_ensure_group: "filedUnder m k x \<Longrightarrow> filedUnder (ensure_group k' m) k x"
  unfolding filedUnder_iff ensure_group_def by auto

lemma filedUnder_push_ensure_same: "filedUnder (push_group k d (ensure_group k m)) k d"
proof -
  have "k \<in> set (map fst (ensure_group k m))" by (simp add: map_fst_ensure_group)
  then obtain ds where "(k, ds) \<in> set (ensure_group k m)" by auto
  from push_group_entry [OF this, of k d]
  have "(k, ds @ [d]) \<in> set (push_group k d (ensure_group k m))" by simp
  moreover have "d \<in> set (ds @ [d])" by simp
  ultimately show ?thesis unfolding filedUnder_iff by blast
qed

lemma groupFlight_keeps:
  "filedUnder (byCountryMap g) k x \<Longrightarrow> filedUnder (byCountryMap (groupFlight side at g item)) k x"
  "filedUnder (byCityMap g) k' y \<Longrightarrow> filedUnder (byCityMap (groupFlight side at g item)) k' y"
  "al \<in> set (airlineSet g) \<Longrightarrow> al \<in> set (airlineSet (groupFlight side at g item))"
  by (cases "flight item";
      simp add: groupFlight_def Let_def filedUnder_push_group filedUnder_ensure_group set_add_def)+

lemma foldl_groupFlight_keeps:
  "filedUnder (byCountryMap g) k x
   \<Longrightarrow> filedUnder (byCountryMap (foldl (groupFlight side at) g items)) k x"
  "filedUnder (byCityMap g) k' y
   \<Longrightarrow> filedUnder (byCityMap (foldl (groupFlight side at) g items)) k' y"
  "al \<in> set (airlineSet g) \<Longrightarrow> al \<in> set (airlineSet (foldl (groupFlight side at) g items))"
  by (induction items arbitrary: g; simp add: groupFlight_keeps)+

lemma groupFlight_files:
  assumes "flight item = Some f"
  shows "filedUnder (byCountryMap (groupFlight side at g item))
           (countryOf (counterpartOf side f)) (countryDetail side at f)"
    and "filedUnder (byCityMap (groupFlight side at g item))
           (cityOf (counterpartOf side f)) (cityDetail side at f)"
    and "airlineOf f \<in> set (airlineSet (groupFlight side at g item))"
  using assms
  by (simp_all add: groupFlight_def Let_def filedUnder_push_ensure_same set_add_def)

lemma foldl_groupFlight_files:
  assumes "item \<in> set items" and "flight item = Some f"
  shows "filedUnder (byCountryMap (foldl (groupFlight side at) g items))
           (countryOf (counterpartOf side f)) (countryDetail side at f)"
    and "filedUnder (byCityMap (foldl (groupFlight side at) g items))
           (cityOf (counterpartOf side f)) (cityDetail side at f)"
    and "airlineOf f \<in> set (airlineSet (foldl (groupFlight side at) g items))"
proof -
  from assms(1) obtain pre post where items: "items = pre @ item # post"
    by (auto dest: split_list)
  let ?g = "groupFlight side at (foldl (groupFlight side at) g pre) item"
  have fold: "foldl (groupFlight side at) g items = foldl (groupFlight side at) ?g post"
    by (simp add: items)
  show "filedUnder (byCountryMap (foldl (groupFlight side at) g items))
           (countryOf (counterpartOf side f)) (countryDetail side at f)"
    unfolding fold by (rule foldl_groupFlight_keeps(1)) (rule groupFlight_files(1) [OF assms(2)])
  show "filedUnder (byCityMap (foldl (groupFlight side at) g items))
           (cityOf (counterpartOf side f)) (cityDetail side at f)"
    unfolding fold by (rule foldl_groupFlight_keeps(2)) (rule groupFlight_files(2) [OF assms(2)])
  show "airlineOf f \<in> set (airlineSet (foldl (groupFlight side at) g items))"
    unfolding fold by (rule foldl_groupFlight_keeps(3)) (rule groupFlight_files(3) [OF assms(2)])
qed

lemma set_own_entries: "set (own_entries ps) = set ps"
  by (auto simp: own_entries_def)

lemma filedUnder_fromEntries:
  "distinct (map fst es) \<Longrightarrow> filedUnder (fromEntries es) k x = filedUnder es k x"
  using foldl_define_property_distinct [of "[]" es]
  by (simp add: fromEntries_def filedUnder_iff set_own_entries)

lemma country_chain:
  "let c = Option.bind (Option.bind a position) country;
       name = Option.bind c country_name; code = Option.bind c country_code
   in (str_truthy name \<longrightarrow> Some (countryOf a) = name)
    \<and> (\<not> str_truthy name \<and> str_truthy code \<longrightarrow> Some (countryOf a) = code)
    \<and> (\<not> str_truthy name \<and> \<not> str_truthy code \<longrightarrow> countryOf a = ''Unknown Country'')"
  by (simp add: countryOf_def or_default_def js_or_def str_truthy_def Let_def split: option.splits)

lemma city_chain:
  "let name = Option.bind a airport_name; code = Option.bind (Option.bind a airport_code) iata
   in (str_truthy name \<longrightarrow> Some (cityOf a) = name)
    \<and> (\<not> str_truthy name \<and> str_truthy code \<longrightarrow> Some (cityOf a) = code)
    \<and> (\<not> str_truthy name \<and> \<not> str_truthy code \<longrightarrow> cityOf a = ''Unknown City'')"
  by (simp add: cityOf_def or_default_def js_or_def str_truthy_def Let_def split: option.splits)

lemma airline_chain:
  "let name = Option.bind (airline f) airline_name;
       code = Option.bind (Option.bind (airline f) airline_code) iata
   in (str_truthy name \<longrightarrow> Some (airlineOf f) = name)
    \<and> (\<not> str_truthy name \<and> str_truthy code \<longrightarrow> Some (airlineOf f) = code)
    \<and> (\<not> str_truthy name \<and> \<not> str_truthy code \<longrightarrow> airlineOf f = ''Unknown Airline'')"
  by (simp add: airlineOf_def or_default_def js_or_def str_truthy_def Let_def split: option.splits)

lemma processFlightData_arrivals:
  "byCountry (arrivals (processFlightData d))
     = fromEntries (byCountryMap (foldl (groupFlight origin departure) emptyGroups (sched_arrivals d)))"
  "byCity (arrivals (processFlightData d))
     = fromEntries (byCityMap (foldl (groupFlight origin departure) emptyGroups (sched_arrivals d)))"
  "airlines (arrivals (processFlightData d))
     = airlineSet (foldl (groupFlight origin departure) emptyGroups (sched_arrivals d))"
  by (simp_all add: processFlightData_def Let_def)

lemma processFlightData_departures:
  "byCountry (departures (processFlightData d))
     = fromEntries (byCountryMap (foldl (groupFlight destination arrival) emptyGroups (sched_departures d)))"
  "byCity (departures (processFlightData d))
     = fromEntries (byCityMap (foldl (groupFlight destination arrival) emptyGroups (sched_departures d)))"
  "airlines (departures (processFlightData d))
     = airlineSet (foldl (groupFlight destination arrival) emptyGroups (sched_departures d))"
  by (simp_all add: processFlightData_def Let_def)

lemma files_in_direction:
  assumes "item \<in> set items" and "flight item = Some f"
  shows "filedUnder (fromEntries (byCountryMap (foldl (groupFlight side at) emptyGroups items)))
           (countryOf (counterpartOf side f)) (countryDetail side at f)
       \<and> filedUnder (fromEntries (byCityMap (foldl (groupFlight side at) emptyGroups items)))
           (cityOf (counterpartOf side f)) (cityDetail side at f)
       \<and> airlineOf f \<in> set (airlineSet (foldl (groupFlight side at) emptyGroups items))"
proof -
  note inv = foldl_groupFlight_invariant [OF distinct_emptyGroups(1,2), of side at items]
  from inv have d1: "distinct (map fst (byCountryMap (foldl (groupFlight side at) emptyGroups items)))"
    and d2: "distinct (map fst (byCityMap (foldl (groupFlight side at) emptyGroups items)))"
    by simp_all
  show ?thesis
    unfolding filedUnder_fromEntries [OF d1] filedUnder_fromEntries [OF d2]
    using foldl_groupFlight_files [OF assms, of side at emptyGroups] by simp
qed

text \<open>
  Claim C2.  The grouping keys of a flight are resolved by fallback chains, where a value
  counts as missing when it is absent at any level of the nesting, \<open>null\<close> or empty: the
  country is the full country name of the counterpart airport, else its country code, else
  "Unknown Country"; the city is the airport name, else the IATA code, else "Unknown City";
  the airline is the airline name, else the airline's IATA code, else "Unknown Airline".
  The counterpart airport is \<open>airport.origin\<close> of the flight for an arrival and
  \<open>airport.destination\<close> for a departure.  Every item of a direction's list that has a
  \<open>flight\<close> object is filed under these keys: its detail is in the country group and in the
  city group of its keys and carries them, and its airline is in the direction's airline
  list.  \<open>processFlightData\<close> returns a result for every such list; no case of the model
  raises.
\<close>

theorem fallback_chains:
  "(let name = Option.bind (Option.bind (Option.bind a position) country) country_name;
        code = Option.bind (Option.bind (Option.bind a position) country) country_code
    in (str_truthy name \<longrightarrow> Some (countryOf a) = name)
     \<and> (\<not> str_truthy name \<and> str_truthy code \<longrightarrow> Some (countryOf a) = code)
     \<and> (\<not> str_truthy name \<and> \<not> str_truthy code \<longrightarrow> countryOf a = ''Unknown Country''))
   \<and> (let name = Option.bind a airport_name;
            code = Option.bind (Option.bind a airport_code) iata
        in (str_truthy name \<longrightarrow> Some (cityOf a) = name)
         \<and> (\<not> str_truthy name \<and> str_truthy code \<longrightarrow> Some (cityOf a) = code)
         \<and> (\<not> str_truthy name \<and> \<not> str_truthy code \<longrightarrow> cityOf a = ''Unknown City''))
   \<and> (let name = Option.bind (airline f) airline_name;
            code = Option.bind (Option.bind (airline f) airline_code) iata
        in (str_truthy name \<longrightarrow> Some (airlineOf f) = name)
         \<and> (\<not> str_truthy name \<and> str_truthy code \<longrightarrow> Some (airlineOf f) = code)
         \<and> (\<not> str_truthy name \<and> \<not> str_truthy code \<longrightarrow> airlineOf f = ''Unknown Airline''))
   \<and> (item \<in> set (sched_arrivals d) \<and> flight item = Some f \<longrightarrow>
         filedUnder (byCountry (arrivals (processFlightData d)))
           (countryOf (Option.bind (airport f) origin)) (countryDetail origin departure f)
         \<and> filedUnder (byCity (arrivals (processFlightData d)))
             (cityOf (Option.bind (airport f) origin)) (cityDetail origin departure f)
         \<and> airlineOf f \<in> set (airlines (arrivals (processFlightData d))))
   \<and> (item \<in> set (sched_departures d) \<and> flight item = Some f \<longrightarrow>
         filedUnder (byCountry (departures (processFlightData d)))
           (countryOf (Option.bind (airport f) destination)) (countryDetail destination arrival f)
         \<and> filedUnder (byCity (departures (processFlightData d)))
             (cityOf (Option.bind (airport f) destination)) (cityDetail destination arrival f)
         \<and> airlineOf f \<in> set (airlines (departures (processFlightData d))))
   \<and> cd_city (countryDetail origin departure f) = cityOf (Option.bind (airport f) origin)
   \<and> cd_airline (countryDetail origin departure f) = airlineOf f
   \<and> ct_country (cityDetail origin departure f) = countryOf (Option.bind (airport f) origin)
   \<and> ct_airline (cityDetail origin departure f) = airlineOf f
   \<and> cd_city (countryDetail destination arrival f) = cityOf (Option.bind (airport f) destination)
   \<and> cd_airline (countryDetail destination arrival f) = airlineOf f
   \<and> ct_country (cityDetail destination arrival f) = countryOf (Option.bind (airport f) destination)
   \<and> ct_airline (cityDetail destination arrival f) = airlineOf f"
proof -
  have arr: "item \<in> set (sched_arrivals d) \<and> flight item = Some f \<longrightarrow>
         filedUnder (byCountry (arrivals (processFlightData d)))
           (countryOf (Option.bind (airport f) origin)) (countryDetail origin departure f)
         \<and> filedUnder (byCity (arrivals (processFlightData d)))
             (cityOf (Option.bind (airport f) origin)) (cityDetail origin departure f)
         \<and> airlineOf f \<in> set (airlines (arrivals (processFlightData d)))"
    unfolding processFlightData_arrivals counterpartOf_def [symmetric]
    using files_in_direction by blast
  have dep: "item \<in> set (sched_departures d) \<and> flight item = Some f \<longrightarrow>
         filedUnder (byCountry (departures (processFlightData d)))
           (countryOf (Option.bind (airport f) destination)) (countryDetail destination arrival f)
         \<and> filedUnder (byCity (departures (processFlightData d)))
             (cityOf (Option.bind (airport f) destination)) (cityDetail destination arrival f)
         \<and> airlineOf f \<in> set (airlines (departures (processFlightData d)))"
    unfolding processFlightData_departures counterpartOf_def [symmetric]
    using files_in_direction by blast
  have det: "cd_city (countryDetail origin departure f) = cityOf (Option.bind (airport f) origin)"
    "cd_airline (countryDetail origin departure f) = airlineOf f"
    "ct_country (cityDetail origin departure f) = countryOf (Option.bind (airport f) origin)"
    "ct_airline (cityDetail origin departure f) = airlineOf f"
    "cd_city (countryDetail destination arrival f) = cityOf (Option.bind (airport f) destination)"
    "cd_airline (countryDetail destination arrival f) = airlineOf f"
    "ct_country (cityDetail destination arrival f) = countryOf (Option.bind (airport f) destination)"
    "ct_airline (cityDetail destination arrival f) = airlineOf f"
    by (simp_all add: countryDetail_def cityDetail_def counterpartOf_def)
  from country_chain [of a] city_chain [of a] airline_chain [of f] arr dep det
  show ?thesis by (simp only: Let_def simp_thms)
qed

theorem fallback_chains_witness:
  "\<lparr>flight = Some namedFlight\<rparr> \<in> set (sched_arrivals routedSchedule)
   \<and> \<lparr>flight = Some codedFlight\<rparr> \<in> set (sched_arrivals routedSchedule)
   \<and> \<lparr>flight = Some blankFlight\<rparr> \<in> set (sched_arrivals routedSchedule)
   \<and> \<lparr>flight = Some namedFlight\<rparr> \<in> set (sched_departures routedSchedule)
   \<and> filedUnder (byCountry (arrivals (processFlightData routedSchedule))) ''France''
        \<lparr>cd_city = ''Paris Charles de Gaulle'', cd_airline = ''Air France'', cd_flightNumber = None,
         cd_scheduledTime = None, cd_actualTime = None, cd_status = None, cd_aircraft = None\<rparr>
   \<and> filedUnder (byCity (arrivals (processFlightData routedSchedule))) ''Paris Charles de Gaulle''
        \<lparr>ct_country = ''France'', ct_airline = ''Air France'', ct_flightNumber = None,
         ct_scheduledTime = None, ct_status = None\<rparr>
   \<and> ''Air France'' \<in> set (airlines (arrivals (processFlightData routedSchedule)))
   \<and> filedUnder (byCountry (arrivals (processFlightData routedSchedule))) ''DE''
        \<lparr>cd_city = ''FRA'', cd_airline = ''LH'', cd_flightNumber = None,
         cd_scheduledTime = None, cd_actualTime = None, cd_status = None, cd_aircraft = None\<rparr>
   \<and> filedUnder (byCity (arrivals (processFlightData routedSchedule))) ''FRA''
        \<lparr>ct_country = ''DE'', ct_airline = ''LH'', ct_flightNumber = None,
         ct_scheduledTime = None, ct_status = None\<rparr>
   \<and> ''LH'' \<in> set (airlines (arrivals (processFlightData routedSchedule)))
   \<and> filedUnder (byCountry (arrivals (processFlightData routedSchedule))) ''Unknown Country''
        \<lparr>cd_city = ''Unknown City'', cd_airline = ''Unknown Airline'', cd_flightNumber = None,
         cd_scheduledTime = None, cd_actualTime = None, cd_status = None, cd_aircraft = None\<rparr>
   \<and> filedUnder (byCity (arrivals (processFlightData routedSchedule))) ''Unknown City''
        \<lparr>ct_country = ''Unknown Country'', ct_airline = ''Unknown Airline'', ct_flightNumber = None,
         ct_scheduledTime = None, ct_status = None\<rparr>
   \<and> ''Unknown Airline'' \<in> set (airlines (arrivals (processFlightData routedSchedule)))
   \<and> filedUnder (byCountry (departures (processFlightData routedSchedule))) ''DE''
        \<lparr>cd_city = ''FRA'', cd_airline = ''Air France'', cd_flightNumber = None,
         cd_scheduledTime = None, cd_actualTime = None, cd_status = None, cd_aircraft = None\<rparr>
   \<and> filedUnder (byCity (departures (processFlightData routedSchedule))) ''FRA''
        \<lparr>ct_country = ''DE'', ct_airline = ''Air France'', ct_flightNumber = None,
         ct_scheduledTime = None, ct_status = None\<rparr>
   \<and> ''Air France'' \<in> set (airlines (departures (processFlightData routedSchedule)))"
proof -
  have m: "\<lparr>flight = Some namedFlight\<rparr> \<in> set (sched_arrivals routedSchedule)"
    "\<lparr>flight = Some codedFlight\<rparr> \<in> set (sched_arrivals routedSchedule)"
    "\<lparr>flight = Some blankFlight\<rparr> \<in> set (sched_arrivals routedSchedule)"
    "\<lparr>flight = Some namedFlight\<rparr> \<in> set (sched_departures routedSchedule)"
    by (simp_all add: routedSchedule_def)
  have k: "countryOf (Option.bind (airport namedFlight) origin) = ''France''"
    "cityOf (Option.bind (airport namedFlight) origin) = ''Paris Charles de Gaulle''"
    "airlineOf namedFlight = ''Air France''"
    "countryOf (Option.bind (airport codedFlight) origin) = ''DE''"
    "cityOf (Option.bind (airport codedFlight) origin) = ''FRA''"
    "airlineOf codedFlight = ''LH''"
    "countryOf (Option.bind (airport blankFlight) origin) = ''Unknown Country''"
    "cityOf (Option.bind (airport blankFlight) origin) = ''Unknown City''"
    "airlineOf blankFlight = ''Unknown Airline''"
    "countryOf (Option.bind (airport namedFlight) destination) = ''DE''"
    "cityOf (Option.bind (airport namedFlight) destination) = ''FRA''"
    by code_simp+
  have e: "countryDetail origin departure namedFlight =
        \<lparr>cd_city = ''Paris Charles de Gaulle'', cd_airline = ''Air France'', cd_flightNumber = None,
         cd_scheduledTime = None, cd_actualTime = None, cd_status = None, cd_aircraft = None\<rparr>"
    "cityDetail origin departure namedFlight =
        \<lparr>ct_country = ''France'', ct_airline = ''Air France'', ct_flightNumber = None,
         ct_scheduledTime = None, ct_status = None\<rparr>"
    "countryDetail origin departure codedFlight =
        \<lparr>cd_city = ''FRA'', cd_airline = ''LH'', cd_flightNumber = None,
         cd_scheduledTime = None, cd_actualTime = None, cd_status = None, cd_aircraft = None\<rparr>"
    "cityDetail origin departure codedFlight =
        \<lparr>ct_country = ''DE'', ct_airline = ''LH'', ct_flightNumber = None,
         ct_scheduledTime = None, ct_status = None\<rparr>"
    "countryDetail origin departure blankFlight =
        \<lparr>cd_city = ''Unknown City'', cd_airline = ''Unknown Airline'', cd_flightNumber = None,
         cd_scheduledTime = None, cd_actualTime = None, cd_status = None, cd_aircraft = None\<rparr>"
    "cityDetail origin departure blankFlight =
        \<lparr>ct_country = ''Unknown Country'', ct_airline = ''Unknown Airline'', ct_flightNumber = None,
         ct_scheduledTime = None, ct_status = None\<rparr>"
    "countryDetail destination arrival namedFlight =
        \<lparr>cd_city = ''FRA'', cd_airline = ''Air France'', cd_flightNumber = None,
         cd_scheduledTime = None, cd_actualTime = None, cd_status = None, cd_aircraft = None\<rparr>"
    "cityDetail destination arrival namedFlight =
        \<lparr>ct_country = ''DE'', ct_airline = ''Air France'', ct_flightNumber = None,
         ct_scheduledTime = None, ct_status = None\<rparr>"
    by code_simp+
  note t = fallback_chains [where d = routedSchedule]
  have a1: "filedUnder (byCountry (arrivals (processFlightData routedSchedule)))
           (countryOf (Option.bind (airport namedFlight) origin)) (countryDetail origin departure namedFlight)
         \<and> filedUnder (byCity (arrivals (processFlightData routedSchedule)))
             (cityOf (Option.bind (airport namedFlight) origin)) (cityDetail origin departure namedFlight)
         \<and> airlineOf namedFlight \<in> set (airlines (arrivals (processFlightData routedSchedule)))"
    using t [where f = namedFlight and item = "\<lparr>flight = Some namedFlight\<rparr>"] m(1) by simp
  have a2: "filedUnder (byCountry (arrivals (processFlightData routedSchedule)))
           (countryOf (Option.bind (airport codedFlight) origin)) (countryDetail origin departure codedFlight)
         \<and> filedUnder (byCity (arrivals (processFlightData routedSchedule)))
             (cityOf (Option.bind (airport codedFlight) origin)) (cityDetail origin departure codedFlight)
         \<and> airlineOf codedFlight \<in> set (airlines (arrivals (processFlightData routedSchedule)))"
    using t [where f = codedFlight and item = "\<lparr>flight = Some codedFlight\<rparr>"] m(2) by simp
  have a3: "filedUnder (byCountry (arrivals (processFlightData routedSchedule)))
           (countryOf (Option.bind (airport blankFlight) origin)) (countryDetail origin departure blankFlight)
         \<and> filedUnder (byCity (arrivals (processFlightData routedSchedule)))
             (cityOf (Option.bind (airport blankFlight) origin)) (cityDetail origin departure blankFlight)
         \<and> airlineOf blankFlight \<in> set (airlines (arrivals (processFlightData routedSchedule)))"
    using t [where f = blankFlight and item = "\<lparr>flight = Some blankFlight\<rparr>"] m(3) by simp
  have d1: "filedUnder (byCountry (departures (processFlightData routedSchedule)))
           (countryOf (Option.bind (airport namedFlight) destination))
           (countryDetail destination arrival namedFlight)
         \<and> filedUnder (byCity (departures (processFlightData routedSchedule)))
             (cityOf (Option.bind (airport namedFlight) destination))
             (cityDetail destination arrival namedFlight)
         \<and> airlineOf namedFlight \<in> set (airlines (departures (processFlightData routedSchedule)))"
    using t [where f = namedFlight and item = "\<lparr>flight = Some namedFlight\<rparr>"] m(4) by simp
  from a1 a2 a3 d1 m show ?thesis unfolding k e by simp
qed

end
